theory Spec2Isabelle
  imports Main "HOL-Library.Word" "HOL-Library.Sublist" "HOL-Library.AList"
begin

unbundle bit_operations_syntax

section \<open>JavaScript values and string helpers\<close>

text \<open>
  The plugin is TypeScript running on Node. Strings are modelled as \<open>string\<close>, a value
  that may be \<open>null\<close> or \<open>undefined\<close> as an \<open>option\<close>, and JavaScript truthiness is
  written out: \<open>null\<close>, \<open>undefined\<close> and the empty string are falsy.
\<close>

type_synonym byte = "8 word"

fun truthy :: "string option \<Rightarrow> bool" where
  "truthy None = False"
| "truthy (Some s) = (s \<noteq> [])"

text \<open>\<open>a || b\<close> on optional strings.\<close>

definition or_else :: "string option \<Rightarrow> string option \<Rightarrow> string option" where
  "or_else a b = (if truthy a then a else b)"

text \<open>The value of \<open>x!\<close> (a TypeScript non-null assertion, erased at run time).\<close>

fun non_null :: "string option \<Rightarrow> string" where
  "non_null (Some s) = s"
| "non_null None = ''null''"

text \<open>\<open>s.includes(sub)\<close> and \<open>s.startsWith(p)\<close>.\<close>

fun str_includes :: "string \<Rightarrow> string \<Rightarrow> bool" where
  "str_includes [] sub = (sub = [])"
| "str_includes (c # cs) sub = (prefix sub (c # cs) \<or> str_includes cs sub)"

definition startsWith :: "string \<Rightarrow> string \<Rightarrow> bool" where
  "startsWith s p = prefix p s"

text \<open>\<open>s.split(sep)[0]\<close> for a one-character separator: the part before its first occurrence.\<close>

definition split_first :: "char \<Rightarrow> string \<Rightarrow> string" where
  "split_first sep s = takeWhile (\<lambda>c. c \<noteq> sep) s"

text \<open>\<open>xs.join(sep)\<close>.\<close>

fun join :: "string \<Rightarrow> string list \<Rightarrow> string" where
  "join sep [] = []"
| "join sep [x] = x"
| "join sep (x # y # ys) = x @ sep @ join sep (y # ys)"

text \<open>Decimal rendering of a number, as a template literal prints it.\<close>

definition digit :: "nat \<Rightarrow> char" where
  "digit d = ''0123456789'' ! (d mod 10)"

fun show_nat :: "nat \<Rightarrow> string" where
  "show_nat n = (if n < 10 then [digit n] else show_nat (n div 10) @ [digit n])"

definition show_int :: "int \<Rightarrow> string" where
  "show_int i = (if i < 0 then CHR ''-'' # show_nat (nat (- i)) else show_nat (nat i))"

text \<open>\<open>s.toUpperCase()\<close> on ASCII text, and \<open>s.replace(/-/g, '')\<close>.\<close>

definition upper_char :: "char \<Rightarrow> char" where
  "upper_char c =
     (let n = (of_char c :: nat) in if 97 \<le> n \<and> n \<le> 122 then char_of (n - 32) else c)"

definition toUpperCase :: "string \<Rightarrow> string" where
  "toUpperCase s = map upper_char s"

definition remove_dashes :: "string \<Rightarrow> string" where
  "remove_dashes s = filter (\<lambda>c. c \<noteq> CHR ''-'') s"

section \<open>Encodings used by the PKCE generator\<close>

subsection \<open>base64url without padding\<close>

text \<open>
  \<open>Buffer.toString('base64url')\<close>: three bytes become four characters of the URL-safe
  alphabet; a final group of one or two bytes becomes two or three characters, and no
  \<open>=\<close> is appended.
\<close>

definition b64url_alphabet :: string where
  "b64url_alphabet = ''ABCDEFGHIJKLMNOPQRSTUVWXYZabcdefghijklmnopqrstuvwxyz0123456789-_''"

definition b64_char :: "byte \<Rightarrow> char" where
  "b64_char i = b64url_alphabet ! unat (i AND 63)"

fun base64url :: "byte list \<Rightarrow> string" where
  "base64url [] = []"
| "base64url [a] = [b64_char (drop_bit 2 a), b64_char (push_bit 4 (a AND 3))]"
| "base64url [a, b] =
     [b64_char (drop_bit 2 a),
      b64_char (push_bit 4 (a AND 3) OR drop_bit 4 b),
      b64_char (push_bit 2 (b AND 15))]"
| "base64url (a # b # c # rest) =
     [b64_char (drop_bit 2 a),
      b64_char (push_bit 4 (a AND 3) OR drop_bit 4 b),
      b64_char (push_bit 2 (b AND 15) OR drop_bit 6 c),
      b64_char (c AND 63)] @ base64url rest"

subsection \<open>SHA-256 (FIPS 180-4)\<close>

text \<open>
  \<open>crypto.createHash('sha256')\<close> is Node's; the digest is modelled after the standard so
  that a challenge can be computed on concrete bytes.
\<close>

type_synonym w32 = "32 word"

text \<open>
  The round constants (the first 32 bits of the fractional parts of the cube roots of
  the first 64 primes) and the initial hash value, as decimal numerals.
\<close>

definition K256 :: "w32 list" where
  "K256 =
     [1116352408, 1899447441, 3049323471, 3921009573, 961987163, 1508970993,
      2453635748, 2870763221, 3624381080, 310598401, 607225278, 1426881987,
      1925078388, 2162078206, 2614888103, 3248222580, 3835390401, 4022224774,
      264347078, 604807628, 770255983, 1249150122, 1555081692, 1996064986,
      2554220882, 2821834349, 2952996808, 3210313671, 3336571891, 3584528711,
      113926993, 338241895, 666307205, 773529912, 1294757372, 1396182291,
      1695183700, 1986661051, 2177026350, 2456956037, 2730485921, 2820302411,
      3259730800, 3345764771, 3516065817, 3600352804, 4094571909, 275423344,
      430227734, 506948616, 659060556, 883997877, 958139571, 1322822218,
      1537002063, 1747873779, 1955562222, 2024104815, 2227730452, 2361852424,
      2428436474, 2756734187, 3204031479, 3329325298]"

definition H256 :: "w32 list" where
  "H256 =
     [1779033703, 3144134277, 1013904242, 2773480762,
      1359893119, 2600822924, 528734635, 1541459225]"

definition rotr :: "nat \<Rightarrow> w32 \<Rightarrow> w32" where
  "rotr n x = drop_bit n x OR push_bit (32 - n) x"

definition bsig0 :: "w32 \<Rightarrow> w32" where
  "bsig0 x = rotr 2 x XOR rotr 13 x XOR rotr 22 x"

definition bsig1 :: "w32 \<Rightarrow> w32" where
  "bsig1 x = rotr 6 x XOR rotr 11 x XOR rotr 25 x"

definition ssig0 :: "w32 \<Rightarrow> w32" where
  "ssig0 x = rotr 7 x XOR rotr 18 x XOR drop_bit 3 x"

definition ssig1 :: "w32 \<Rightarrow> w32" where
  "ssig1 x = rotr 17 x XOR rotr 19 x XOR drop_bit 10 x"

definition ch :: "w32 \<Rightarrow> w32 \<Rightarrow> w32 \<Rightarrow> w32" where
  "ch x y z = (x AND y) XOR (NOT x AND z)"

definition maj :: "w32 \<Rightarrow> w32 \<Rightarrow> w32 \<Rightarrow> w32" where
  "maj x y z = (x AND y) XOR (x AND z) XOR (y AND z)"

text \<open>The message schedule; the window holds the last sixteen words, oldest first.\<close>

fun schedule :: "nat \<Rightarrow> w32 list \<Rightarrow> w32 list" where
  "schedule 0 win = []"
| "schedule (Suc n) win =
     (let w = ssig1 (win ! 14) + win ! 9 + ssig0 (win ! 1) + win ! 0
      in w # schedule n (tl win @ [w]))"

definition round_step :: "w32 list \<Rightarrow> w32 \<times> w32 \<Rightarrow> w32 list" where
  "round_step st kw =
     (let a = st ! 0; b = st ! 1; c = st ! 2; d = st ! 3;
          e = st ! 4; f = st ! 5; g = st ! 6; h = st ! 7;
          t1 = h + bsig1 e + ch e f g + fst kw + snd kw;
          t2 = bsig0 a + maj a b c
      in [t1 + t2, a, b, c, d + t1, e, f, g])"

definition compress :: "w32 list \<Rightarrow> w32 list \<Rightarrow> w32 list" where
  "compress st blk = map2 (+) st (foldl round_step st (zip K256 (blk @ schedule 48 blk)))"

fun be_words :: "byte list \<Rightarrow> w32 list" where
  "be_words (a # b # c # d # rest) =
     (push_bit 24 (ucast a) OR push_bit 16 (ucast b) OR push_bit 8 (ucast c) OR ucast d)
       # be_words rest"
| "be_words _ = []"

definition blocks :: "w32 list \<Rightarrow> w32 list list" where
  "blocks ws = map (\<lambda>i. take 16 (drop (16 * i) ws)) [0..<length ws div 16]"

definition word_bytes :: "w32 \<Rightarrow> byte list" where
  "word_bytes w = [ucast (drop_bit 24 w), ucast (drop_bit 16 w), ucast (drop_bit 8 w), ucast w]"

definition length_bytes :: "nat \<Rightarrow> byte list" where
  "length_bytes n = map (\<lambda>i. ucast (drop_bit (56 - 8 * i) (of_nat n :: 64 word))) [0..<8]"

definition pad :: "byte list \<Rightarrow> byte list" where
  "pad m = m @ [0x80] @ replicate ((119 - length m mod 64) mod 64) 0
             @ length_bytes (8 * length m)"

definition sha256 :: "byte list \<Rightarrow> byte list" where
  "sha256 m = concat (map word_bytes (foldl compress H256 (blocks (be_words (pad m)))))"

subsection \<open>The PKCE pair\<close>

text \<open>
  \<^verbatim>\<open>generateCodeVerifier(): crypto.randomBytes(32).toString('base64url')\<close>, with the random
  bytes as the argument, and
  \<^verbatim>\<open>generateCodeChallenge(verifier): crypto.createHash('sha256').update(verifier).digest('base64url')\<close>.
  \<open>update\<close> receives the verifier \<^emph>\<open>string\<close> and hashes its UTF-8 bytes; the verifier is
  ASCII, so each character is one byte.
\<close>

definition utf8_ascii :: "string \<Rightarrow> byte list" where
  "utf8_ascii s = map of_char s"

definition generateCodeVerifier :: "byte list \<Rightarrow> string" where
  "generateCodeVerifier random_bytes = base64url random_bytes"

definition generateCodeChallenge :: "string \<Rightarrow> string" where
  "generateCodeChallenge verifier = base64url (sha256 (utf8_ascii verifier))"

text \<open>The contract as the specification words it: the digest of the verifier's raw bytes.\<close>

definition spec_challenge :: "byte list \<Rightarrow> string" where
  "spec_challenge verifier_bytes = base64url (sha256 verifier_bytes)"

section \<open>JSON values\<close>

text \<open>
  What \<open>JSON.parse\<close> returns. Numbers are restricted to integers; an object is its
  list of members, looked up by key.
\<close>

datatype json =
    JNull
  | JBool bool
  | JNum int
  | JStr string
  | JArr "json list"
  | JObj "(string \<times> json) list"

text \<open>JavaScript truthiness of a parsed value, and of a property that may be missing.\<close>

fun json_truthy :: "json \<Rightarrow> bool" where
  "json_truthy JNull = False"
| "json_truthy (JBool b) = b"
| "json_truthy (JNum n) = (n \<noteq> 0)"
| "json_truthy (JStr s) = (s \<noteq> [])"
| "json_truthy (JArr xs) = True"
| "json_truthy (JObj kvs) = True"

fun prop_truthy :: "json option \<Rightarrow> bool" where
  "prop_truthy None = False"
| "prop_truthy (Some v) = json_truthy v"

text \<open>
  \<open>v.key\<close>: \<open>Inl ()\<close> is the \<open>TypeError\<close> of reading a property of \<open>null\<close>;
  \<open>Inr None\<close> is \<open>undefined\<close>. Only objects carry the keys the plugin reads.
\<close>

fun json_get :: "json \<Rightarrow> string \<Rightarrow> unit + json option" where
  "json_get JNull key = Inl ()"
| "json_get (JObj kvs) key = Inr (map_of kvs key)"
| "json_get v key = Inr None"

text \<open>\<open>String(v)\<close>, as a template literal renders a parsed value.\<close>

fun js_string :: "json \<Rightarrow> string" where
  "js_string JNull = ''null''"
| "js_string (JBool b) = (if b then ''true'' else ''false'')"
| "js_string (JNum n) = show_int n"
| "js_string (JStr s) = s"
| "js_string (JArr xs) =
     join '','' (map (\<lambda>x. case x of JNull \<Rightarrow> [] | _ \<Rightarrow> js_string x) xs)"
| "js_string (JObj kvs) = ''[object Object]''"

section \<open>Errors\<close>

text \<open>
  Every \<open>throw new Error(...)\<close> and \<open>reject(...)\<close> of the source is one constructor; the
  source itself has a single \<open>Error\<close> class and tells failures apart by message only.
\<close>

datatype error =
    NetworkError string
  | CredentialsRequired
  | NoRefreshToken
  | LoginPageError
  | LoginFailed string
  | CredentialSubmissionFailed nat string
  | ConfirmationFailed string
  | NoAuthorizationCode
  | InvalidTokenResponse
  | TokenRequestFailed nat string
  | NoAuthenticationAvailable
  | NoAccessTokenAvailable
  | HttpError nat string

text \<open>\<open>error.message\<close>, and \<open>`${error}`\<close>.\<close>

fun message :: "error \<Rightarrow> string" where
  "message (NetworkError m) = m"
| "message CredentialsRequired = ''Email and password are required for authentication''"
| "message NoRefreshToken = ''No refresh token available''"
| "message LoginPageError = ''Failed to get CSRF token or transaction ID from login page''"
| "message (LoginFailed m) = ''Login failed: '' @ m"
| "message (CredentialSubmissionFailed st d) =
     ''Credential submission failed: '' @ show_nat st @ '' - '' @ d"
| "message (ConfirmationFailed d) = ''Confirmation failed: '' @ d"
| "message NoAuthorizationCode =
     ''Could not get authorization code from confirmation response''"
| "message InvalidTokenResponse = ''Invalid token response''"
| "message (TokenRequestFailed st d) = ''Token request failed: '' @ show_nat st @ '' - '' @ d"
| "message NoAuthenticationAvailable =
     ''No authentication available. Please provide email/password in config or set an access token manually.''"
| "message NoAccessTokenAvailable = ''No access token available''"
| "message (HttpError st d) = ''HTTP '' @ show_nat st @ '': '' @ d"

definition error_to_string :: "error \<Rightarrow> string" where
  "error_to_string e = ''Error: '' @ message e"

text \<open>
  The taxonomy of the specification, by the place an error is raised: the step of the
  login choreography, the token endpoint, the transport, or the missing credentials.
\<close>

datatype error_kind =
    NetworkErrorKind
  | AuthConfigError
  | InvalidCredentialsError
  | LoginConfirmationError
  | TokenExchangeError
  | NoCredentialsError
  | DeviceCommandError

fun error_kind_of :: "error \<Rightarrow> error_kind" where
  "error_kind_of (NetworkError m) = NetworkErrorKind"
| "error_kind_of CredentialsRequired = NoCredentialsError"
| "error_kind_of NoRefreshToken = TokenExchangeError"
| "error_kind_of LoginPageError = AuthConfigError"
| "error_kind_of (LoginFailed m) = InvalidCredentialsError"
| "error_kind_of (CredentialSubmissionFailed st d) = InvalidCredentialsError"
| "error_kind_of (ConfirmationFailed d) = LoginConfirmationError"
| "error_kind_of NoAuthorizationCode = LoginConfirmationError"
| "error_kind_of InvalidTokenResponse = TokenExchangeError"
| "error_kind_of (TokenRequestFailed st d) = TokenExchangeError"
| "error_kind_of NoAuthenticationAvailable = NoCredentialsError"
| "error_kind_of NoAccessTokenAvailable = NoCredentialsError"
| "error_kind_of (HttpError st d) = DeviceCommandError"

section \<open>The HTTP exchange, the clock and the log\<close>

text \<open>
  A request is recorded by what varies in it; the fixed URLs, client id, scopes and
  headers of the source are left out. \<open>SelfAssertedPost\<close> carries the \<open>X-CSRF-TOKEN\<close>
  header, the \<open>Cookie\<close> header, the transaction id and the two form fields;
  \<open>ConfirmedGet\<close> the same headers and the transaction id; \<open>ApiRequest\<close> the method,
  the URL, the bearer token and the body.
\<close>

datatype grant = AuthorizationCode string string | RefreshGrant string

datatype command_body =
    SetStateBody string "int option" string
  | GetStateBody string

datatype request =
    AuthorizeGet string string
  | SelfAssertedPost string string string string string
  | ConfirmedGet string string string
  | TokenPost grant
  | ApiRequest string string string "command_body option"

record response =
  statusCode :: nat
  data :: string
  setCookieHeaders :: "string list option"
  locationHeader :: "string option"

text \<open>The \<open>'error'\<close> event of the request (\<open>Inl\<close>, with its message) or the response.\<close>

type_synonym reply = "string + response"

datatype log_entry = LogDebug string | LogInfo string | LogWarn string | LogError string

text \<open>
  The regular expressions of the source, named; the engine (\<open>String.prototype.match\<close>)
  is part of the environment and returns the first capture group of the first match.
\<close>

datatype pattern =
    CsrfField         \<comment> \<open>\<^verbatim>\<open>/name="csrf_token"[^>]*value="([^"]+)"/\<close>\<close>
  | StateProperties   \<comment> \<open>\<^verbatim>\<open>/StateProperties=([^"&]+)/\<close>\<close>
  | CsrfCookie        \<comment> \<open>\<^verbatim>\<open>/x-ms-cpim-csrf=([^;]+)/\<close>\<close>
  | LocationCode      \<comment> \<open>\<^verbatim>\<open>/code=([^&]+)/\<close>\<close>
  | BodyCode          \<comment> \<open>\<^verbatim>\<open>/code=([^&"'\s]+)/\<close>\<close>
  | WindowLocation    \<comment> \<open>\<^verbatim>\<open>/window\.location\s*=\s*['"]([^'"]+)['"]/\<close>\<close>

record TokenResponse =
  access_token :: string
  refresh_token :: "string option"
  expires_in :: int
  token_type :: string

text \<open>
  Everything the process does not decide: \<open>clock k\<close> is what the \<open>k\<close>-th call of
  \<open>Date.now()\<close> returns, \<open>net k req\<close> how the \<open>k\<close>-th request sent is answered,
  \<open>randomBytes32 k\<close> and \<open>randomUUID k\<close> the \<open>k\<close>-th draw from \<open>crypto\<close>.
  \<open>JSON_parse\<close> is \<open>None\<close> when \<open>JSON.parse\<close> throws;
  \<open>parse_token_response\<close> is \<open>JSON.parse\<close> at the type the source declares for the
  token endpoint (\<open>None\<close> when it throws); \<open>decodeURIComponent\<close> is taken on
  well-formed escapes only.
\<close>

record env =
  clock :: "nat \<Rightarrow> int"
  net :: "nat \<Rightarrow> request \<Rightarrow> reply"
  randomBytes32 :: "nat \<Rightarrow> byte list"
  randomUUID :: "nat \<Rightarrow> string"
  regex_match :: "pattern \<Rightarrow> string \<Rightarrow> string option"
  decodeURIComponent :: "string \<Rightarrow> string"
  JSON_parse :: "string \<Rightarrow> json option"
  JSON_stringify :: "json \<Rightarrow> string"
  parse_token_response :: "string \<Rightarrow> TokenResponse option"

record world =
  reads :: nat
  draws :: nat
  sent :: "request list"
  logs :: "log_entry list"

definition date_now :: "env \<Rightarrow> world \<Rightarrow> int \<times> world" where
  "date_now e w = (clock e (reads w), w\<lparr>reads := Suc (reads w)\<rparr>)"

definition log :: "log_entry \<Rightarrow> world \<Rightarrow> world" where
  "log entry w = w\<lparr>logs := logs w @ [entry]\<rparr>"

definition log_in :: "log_entry \<Rightarrow> world \<times> 'o \<Rightarrow> world \<times> 'o" where
  "log_in entry s = (log entry (fst s), snd s)"

section \<open>Asynchronous tasks\<close>

text \<open>
  An \<open>async\<close> function runs until it awaits a network reply. \<open>Done r s\<close> is a settled
  promise: the result and the state it left. \<open>Await n req s k\<close> is a task suspended on
  the reply to request number \<open>n\<close>, already sent; \<open>s\<close> is the state it left, and \<open>k\<close>
  what it does with the reply and with the state it finds when it resumes. A rejected
  promise is a result \<open>Inl e\<close>.
\<close>

datatype ('s, 'a) task =
    Done 'a 's
  | Await nat request 's "reply \<Rightarrow> 's \<Rightarrow> ('s, 'a) task"

primrec bind_task :: "('s, 'a) task \<Rightarrow> ('a \<Rightarrow> 's \<Rightarrow> ('s, 'b) task) \<Rightarrow> ('s, 'b) task" where
  "bind_task (Done a s) f = f a s"
| "bind_task (Await n req s k) f = Await n req s (\<lambda>r s'. bind_task (k r s') f)"

text \<open>\<open>await m; rest\<close>: a rejection of \<open>m\<close> is thrown on.\<close>

definition and_then ::
  "('s, error + 'a) task \<Rightarrow> ('a \<Rightarrow> 's \<Rightarrow> ('s, error + 'b) task) \<Rightarrow> ('s, error + 'b) task" where
  "and_then m f = bind_task m (\<lambda>r s. case r of Inl e \<Rightarrow> Done (Inl e) s | Inr a \<Rightarrow> f a s)"

text \<open>\<open>https.request(...)\<close> followed by \<open>req.end()\<close>: the request is sent, the task waits.\<close>

definition http ::
  "request \<Rightarrow> world \<times> 'o \<Rightarrow> (reply \<Rightarrow> world \<times> 'o \<Rightarrow> (world \<times> 'o, 'a) task)
     \<Rightarrow> (world \<times> 'o, 'a) task" where
  "http req s k =
     Await (length (sent (fst s))) req ((fst s)\<lparr>sent := sent (fst s) @ [req]\<rparr>, snd s) k"

text \<open>
  One caller alone: every reply arrives before anything else happens, so a task resumes
  in the state it left.
\<close>

primrec run :: "env \<Rightarrow> ('s, 'a) task \<Rightarrow> 'a \<times> 's" where
  "run e (Done a s) = (a, s)"
| "run e (Await n req s k) = run e (k (net e n req) s)"

primrec state_of :: "('s, 'a) task \<Rightarrow> 's" where
  "state_of (Done a s) = s"
| "state_of (Await n req s k) = s"

section \<open>LegrandAuth: the token cache and the login choreography\<close>

record LegrandAuth =
  accessToken :: "string option"
  refreshToken :: "string option"
  tokenExpiry :: int
  email :: string
  password :: string

type_synonym auth_sys = "world \<times> LegrandAuth"

definition new_LegrandAuth :: "string \<Rightarrow> string \<Rightarrow> LegrandAuth" where
  "new_LegrandAuth em pw =
     \<lparr>accessToken = None, refreshToken = None, tokenExpiry = 0, email = em, password = pw\<rparr>"

text \<open>\<^verbatim>\<open>setTokens(accessToken, refreshToken?, expiresIn = 3600)\<close>\<close>

definition setTokens ::
  "env \<Rightarrow> string \<Rightarrow> string option \<Rightarrow> int \<Rightarrow> auth_sys \<Rightarrow> auth_sys" where
  "setTokens e tok rtok expiresIn s =
     (case s of (w, a) \<Rightarrow>
        (case date_now e w of (now, w') \<Rightarrow>
           (w', a\<lparr>accessToken := Some tok,
                  refreshToken := or_else rtok None,
                  tokenExpiry := now + expiresIn * 1000\<rparr>)))"

definition hasCredentials :: "LegrandAuth \<Rightarrow> bool" where
  "hasCredentials a = (email a \<noteq> [] \<and> password a \<noteq> [])"

subsection \<open>The token endpoint\<close>

text \<open>
  \<open>postToTokenEndpoint\<close>: the \<open>'error'\<close> handler rejects with the transport's error;
  the \<open>'end'\<close> handler resolves with the parsed body on status 200 and rejects otherwise.
\<close>

definition token_outcome :: "env \<Rightarrow> reply \<Rightarrow> error + TokenResponse" where
  "token_outcome e rep =
     (case rep of
        Inl m \<Rightarrow> Inl (NetworkError m)
      | Inr res \<Rightarrow>
          if statusCode res = 200 then
            (case parse_token_response e (data res) of
               Some tokens \<Rightarrow> Inr tokens
             | None \<Rightarrow> Inl InvalidTokenResponse)
          else Inl (TokenRequestFailed (statusCode res) (data res)))"

definition postToTokenEndpoint ::
  "env \<Rightarrow> grant \<Rightarrow> auth_sys \<Rightarrow> (auth_sys, error + TokenResponse) task" where
  "postToTokenEndpoint e g s = http (TokenPost g) s (\<lambda>rep s'. Done (token_outcome e rep) s')"

definition exchangeCodeForTokens ::
  "env \<Rightarrow> string \<Rightarrow> string \<Rightarrow> auth_sys \<Rightarrow> (auth_sys, error + TokenResponse) task" where
  "exchangeCodeForTokens e code codeVerifier s =
     postToTokenEndpoint e (AuthorizationCode code codeVerifier) s"

text \<open>
  \<open>refreshAccessToken\<close>. \<open>store_refreshed\<close> is its three assignments after the await:
  a response without \<open>refresh_token\<close> keeps the previous one
  (\<^verbatim>\<open>tokens.refresh_token || this.refreshToken\<close>), read when the task resumes.
\<close>

definition store_refreshed :: "env \<Rightarrow> TokenResponse \<Rightarrow> auth_sys \<Rightarrow> auth_sys" where
  "store_refreshed e tokens s =
     (case s of (w, a) \<Rightarrow>
        (case date_now e w of (now, w') \<Rightarrow>
           (log (LogDebug ''Token refreshed successfully'') w',
            a\<lparr>accessToken := Some (access_token tokens),
              refreshToken := or_else (refresh_token tokens) (refreshToken a),
              tokenExpiry := now + expires_in tokens * 1000\<rparr>)))"

definition refreshAccessToken :: "env \<Rightarrow> auth_sys \<Rightarrow> (auth_sys, error + unit) task" where
  "refreshAccessToken e s =
     (if \<not> truthy (refreshToken (snd s)) then Done (Inl NoRefreshToken) s
      else and_then
             (postToTokenEndpoint e (RefreshGrant (non_null (refreshToken (snd s))))
                (log_in (LogDebug ''Refreshing access token...'') s))
             (\<lambda>tokens s'. Done (Inr ()) (store_refreshed e tokens s')))"

subsection \<open>Step 1: the authorize page\<close>

text \<open>
  \<open>startAuthorization\<close>. \<open>login_page\<close> is what its response handler resolves with: the
  cookies cut at their first \<open>;\<close>, the CSRF token from the form field or else from the
  \<open>x-ms-cpim-csrf\<close> cookie, and the transaction id.
\<close>

definition login_page :: "env \<Rightarrow> response \<Rightarrow> string \<times> string list \<times> string" where
  "login_page e res =
     (let cookies = (case setCookieHeaders res of
                       None \<Rightarrow> []
                     | Some hs \<Rightarrow> map (split_first CHR '';'') hs);
          csrfToken = (case regex_match e CsrfField (data res) of Some c \<Rightarrow> c | None \<Rightarrow> []);
          tx = (case regex_match e StateProperties (data res) of
                  Some t \<Rightarrow> ''StateProperties='' @ t
                | None \<Rightarrow> [])
      in if csrfToken = [] then
           (case find (\<lambda>c. str_includes c ''x-ms-cpim-csrf'') cookies of
              Some csrfCookie \<Rightarrow>
                (case regex_match e CsrfCookie csrfCookie of
                   Some m \<Rightarrow> (m, cookies, tx)
                 | None \<Rightarrow> (csrfToken, cookies, tx))
            | None \<Rightarrow> (csrfToken, cookies, tx))
         else (csrfToken, cookies, tx))"

definition startAuthorization ::
  "env \<Rightarrow> string \<Rightarrow> string \<Rightarrow> auth_sys
     \<Rightarrow> (auth_sys, error + string \<times> string list \<times> string) task" where
  "startAuthorization e codeChallenge st s =
     http (AuthorizeGet codeChallenge st) s
       (\<lambda>rep s'. case rep of
                    Inl m \<Rightarrow> Done (Inl (NetworkError m)) s'
                  | Inr res \<Rightarrow> Done (Inr (login_page e res)) s')"

subsection \<open>Step 2: submitting the credentials\<close>

text \<open>
  The cookie loop of \<open>submitCredentials\<close>. The jar is the list of \<open>name=value\<close> strings;
  \<^verbatim>\<open>findIndex(c => c.startsWith(cookieName + '='))\<close> finds the entry to overwrite.
\<close>

fun findIndex :: "('a \<Rightarrow> bool) \<Rightarrow> 'a list \<Rightarrow> nat option" where
  "findIndex P [] = None"
| "findIndex P (x # xs) = (if P x then Some 0 else map_option Suc (findIndex P xs))"

definition cookie_step :: "string list \<Rightarrow> string \<Rightarrow> string list" where
  "cookie_step updatedCookies cookie =
     (let cookiePart = split_first CHR '';'' cookie;
          cookieName = split_first CHR ''='' cookiePart
      in case findIndex (\<lambda>c. startsWith c (cookieName @ ''='')) updatedCookies of
           Some existingIndex \<Rightarrow> updatedCookies[existingIndex := cookiePart]
         | None \<Rightarrow> updatedCookies @ [cookiePart])"

definition merge_cookies :: "string list \<Rightarrow> string list option \<Rightarrow> string list" where
  "merge_cookies cookies setCookie =
     (case setCookie of None \<Rightarrow> cookies | Some hs \<Rightarrow> foldl cookie_step cookies hs)"

text \<open>The \<open>Cookie\<close> header: \<^verbatim>\<open>cookies.join('; ')\<close>.\<close>

definition cookie_header :: "string list \<Rightarrow> string" where
  "cookie_header cookies = join ''; '' cookies"

text \<open>\<^verbatim>\<open>json.message || 'Invalid credentials'\<close> inside the template literal.\<close>

definition login_failed_message :: "json option \<Rightarrow> string" where
  "login_failed_message msg =
     (case msg of
        Some v \<Rightarrow> if json_truthy v then js_string v else ''Invalid credentials''
      | None \<Rightarrow> ''Invalid credentials'')"

text \<open>
  The \<open>'end'\<close> handler. A body that is not JSON, or whose property read throws (the
  value \<open>null\<close>), is caught by the empty \<open>catch\<close> and the cookies are returned.
\<close>

definition submit_outcome :: "env \<Rightarrow> string list \<Rightarrow> response \<Rightarrow> error + string list" where
  "submit_outcome e cookies res =
     (let updatedCookies = merge_cookies cookies (setCookieHeaders res)
      in if statusCode res = 200 then
           (case JSON_parse e (data res) of
              None \<Rightarrow> Inr updatedCookies
            | Some json \<Rightarrow>
                (case json_get json ''status'' of
                   Inl _ \<Rightarrow> Inr updatedCookies
                 | Inr st \<Rightarrow>
                     (case json_get json ''message'' of
                        Inl _ \<Rightarrow> Inr updatedCookies
                      | Inr msg \<Rightarrow>
                          if st = Some (JStr ''400'') \<or> prop_truthy msg
                          then Inl (LoginFailed (login_failed_message msg))
                          else Inr updatedCookies)))
         else Inl (CredentialSubmissionFailed (statusCode res) (data res)))"

definition submitCredentials ::
  "env \<Rightarrow> string \<Rightarrow> string list \<Rightarrow> string \<Rightarrow> auth_sys
     \<Rightarrow> (auth_sys, error + string list) task" where
  "submitCredentials e csrfToken cookies tx s =
     http (SelfAssertedPost csrfToken (cookie_header cookies) tx
             (email (snd s)) (password (snd s))) s
       (\<lambda>rep s'. case rep of
                    Inl m \<Rightarrow> Done (Inl (NetworkError m)) s'
                  | Inr res \<Rightarrow> Done (submit_outcome e cookies res) s')"

text \<open>
  The cookie jar as the specification words it: a mapping from name to value, kept in
  order. A header gives the pair before its first \<open>;\<close>, split at the first \<open>=\<close>; an
  existing name is overwritten in place, a new one is appended; the jar is serialized as
  \<open>name=value\<close> pairs joined by \<open>; \<close>.
\<close>

definition cookie_pair :: "string \<Rightarrow> string \<times> string" where
  "cookie_pair header =
     (let part = split_first CHR '';'' header; name = split_first CHR ''='' part
      in (name, drop (Suc (length name)) part))"

definition jar_merge :: "(string \<times> string) list \<Rightarrow> string list \<Rightarrow> (string \<times> string) list" where
  "jar_merge jar hs =
     foldl (\<lambda>j h. AList.update (fst (cookie_pair h)) (snd (cookie_pair h)) j) jar hs"

definition render_cookie :: "string \<times> string \<Rightarrow> string" where
  "render_cookie p = fst p @ ''='' @ snd p"

definition jar_serialize :: "(string \<times> string) list \<Rightarrow> string" where
  "jar_serialize jar = join ''; '' (map render_cookie jar)"

subsection \<open>Step 3: the confirmation and the authorization code\<close>

text \<open>
  \<open>confirmAndGetCode\<close>: the code from the \<open>Location\<close> header, else from the body, else
  from a script redirect in the body; failing all three, one of two errors.
\<close>

definition confirm_outcome :: "env \<Rightarrow> response \<Rightarrow> error + string" where
  "confirm_outcome e res =
     (case (case locationHeader res of
              None \<Rightarrow> None
            | Some loc \<Rightarrow> if loc = [] then None else regex_match e LocationCode loc) of
        Some code \<Rightarrow> Inr (decodeURIComponent e code)
      | None \<Rightarrow>
          (case regex_match e BodyCode (data res) of
             Some code \<Rightarrow> Inr (decodeURIComponent e code)
           | None \<Rightarrow>
               (case (case regex_match e WindowLocation (data res) of
                        None \<Rightarrow> None
                      | Some redirectUrl \<Rightarrow> regex_match e LocationCode redirectUrl) of
                  Some code \<Rightarrow> Inr (decodeURIComponent e code)
                | None \<Rightarrow>
                    if str_includes (data res) ''error''
                    then Inl (ConfirmationFailed (take 200 (data res)))
                    else Inl NoAuthorizationCode)))"

definition confirmAndGetCode ::
  "env \<Rightarrow> string list \<Rightarrow> string \<Rightarrow> string \<Rightarrow> auth_sys \<Rightarrow> (auth_sys, error + string) task" where
  "confirmAndGetCode e cookies tx csrfToken s =
     http (ConfirmedGet csrfToken (cookie_header cookies) tx) s
       (\<lambda>rep s'. case rep of
                    Inl m \<Rightarrow> Done (Inl (NetworkError m)) s'
                  | Inr res \<Rightarrow> Done (confirm_outcome e res) s')"

subsection \<open>The full authentication\<close>

text \<open>The three assignments at the end of \<open>authenticate\<close>.\<close>

definition store_login :: "env \<Rightarrow> TokenResponse \<Rightarrow> auth_sys \<Rightarrow> auth_sys" where
  "store_login e tokens s =
     (case s of (w, a) \<Rightarrow>
        (case date_now e w of (now, w') \<Rightarrow>
           (log (LogInfo ''Authentication successful!'') w',
            a\<lparr>accessToken := Some (access_token tokens),
              refreshToken := or_else (refresh_token tokens) None,
              tokenExpiry := now + expires_in tokens * 1000\<rparr>)))"

text \<open>
  The body of the \<open>try\<close> block of \<open>authenticate\<close>: the PKCE pair, the state, and the
  four steps, each awaited before the next.
\<close>

definition login_choreography :: "env \<Rightarrow> auth_sys \<Rightarrow> (auth_sys, error + unit) task" where
  "login_choreography e s =
     (case s of (w, a) \<Rightarrow>
        (let codeVerifier = generateCodeVerifier (randomBytes32 e (draws w));
             codeChallenge = generateCodeChallenge codeVerifier;
             st = remove_dashes (toUpperCase (randomUUID e (Suc (draws w))));
             w1 = log (LogDebug ''Step 1: Starting authorization flow...'')
                    (w\<lparr>draws := draws w + 2\<rparr>)
         in and_then (startAuthorization e codeChallenge st (w1, a))
              (\<lambda>page s1. case page of (csrfToken, cookies, tx) \<Rightarrow>
                 if csrfToken = [] \<or> tx = [] then Done (Inl LoginPageError) s1
                 else and_then
                        (submitCredentials e csrfToken cookies tx
                           (log_in (LogDebug ''Step 2: Submitting credentials...'') s1))
                        (\<lambda>updatedCookies s2.
                           and_then
                             (confirmAndGetCode e updatedCookies tx csrfToken
                                (log_in (LogDebug ''Step 3: Confirming login...'') s2))
                             (\<lambda>authCode s3.
                                and_then
                                  (exchangeCodeForTokens e authCode codeVerifier
                                     (log_in (LogDebug ''Step 4: Exchanging code for tokens...'') s3))
                                  (\<lambda>tokens s4. Done (Inr ()) (store_login e tokens s4)))))))"

text \<open>
  \<open>authenticate\<close>: the check of the credentials stands before the \<open>try\<close>; the \<open>catch\<close>
  logs the error and throws it on.
\<close>

definition authenticate :: "env \<Rightarrow> auth_sys \<Rightarrow> (auth_sys, error + unit) task" where
  "authenticate e s =
     (let s0 = log_in (LogInfo ''Authenticating with Legrand cloud...'') s
      in if email (snd s0) = [] \<or> password (snd s0) = [] then Done (Inl CredentialsRequired) s0
         else bind_task (login_choreography e s0)
                (\<lambda>r s'. case r of
                           Inl err \<Rightarrow>
                             Done (Inl err)
                               (log_in (LogError (''Authentication failed: '' @ error_to_string err)) s')
                         | Inr u \<Rightarrow> Done (Inr u) s'))"

subsection \<open>getAccessToken\<close>

text \<open>
  \<^verbatim>\<open>if (this.accessToken && Date.now() < this.tokenExpiry - 60000) return this.accessToken;\<close>
  The clock is read only when a token is cached. \<open>return_token\<close> is
  \<^verbatim>\<open>return this.accessToken!\<close>, \<open>authenticate_and_return\<close> the last two lines of the
  function, and \<open>refresh_or_authenticate\<close> all that follows the first \<open>if\<close>: the refresh
  inside its \<open>try\<close>, whose \<open>catch\<close> only logs, and then the full authentication.
\<close>

definition return_token :: "auth_sys \<Rightarrow> (auth_sys, error + string) task" where
  "return_token s = Done (Inr (non_null (accessToken (snd s)))) s"

definition authenticate_and_return :: "env \<Rightarrow> auth_sys \<Rightarrow> (auth_sys, error + string) task" where
  "authenticate_and_return e s = and_then (authenticate e s) (\<lambda>u s'. return_token s')"

definition refresh_or_authenticate :: "env \<Rightarrow> auth_sys \<Rightarrow> (auth_sys, error + string) task" where
  "refresh_or_authenticate e s =
     (if truthy (refreshToken (snd s)) then
        bind_task (refreshAccessToken e s)
          (\<lambda>r s'. case r of
                     Inr u \<Rightarrow> return_token s'
                   | Inl err \<Rightarrow>
                       authenticate_and_return e
                         (log_in (LogWarn (''Token refresh failed: '' @ error_to_string err)) s'))
      else authenticate_and_return e s)"

definition getAccessToken :: "env \<Rightarrow> auth_sys \<Rightarrow> (auth_sys, error + string) task" where
  "getAccessToken e s =
     (case s of (w, a) \<Rightarrow>
        if truthy (accessToken a) then
          (case date_now e w of (now, w') \<Rightarrow>
             if now < tokenExpiry a - 60000 then return_token (w', a)
             else refresh_or_authenticate e (w', a))
        else refresh_or_authenticate e (w, a))"

section \<open>LegrandCloudApi: the device command client\<close>

record LegrandCloudApi =
  auth :: "LegrandAuth option"
  manualToken :: "string option"
  manualTokenExpiry :: int
  debug :: bool

type_synonym api_sys = "world \<times> LegrandCloudApi"

text \<open>The constructor: the auth module exists only when both credentials are given.\<close>

definition new_LegrandCloudApi :: "string option \<Rightarrow> string option \<Rightarrow> bool \<Rightarrow> LegrandCloudApi" where
  "new_LegrandCloudApi em pw dbg =
     \<lparr>auth = (if truthy em \<and> truthy pw
               then Some (new_LegrandAuth (non_null em) (non_null pw)) else None),
      manualToken = None, manualTokenExpiry = 0, debug = dbg\<rparr>"

text \<open>\<^verbatim>\<open>await this.auth.getAccessToken()\<close>, awaited to its end.\<close>

definition auth_getAccessToken :: "env \<Rightarrow> LegrandAuth \<Rightarrow> api_sys \<Rightarrow> (error + string) \<times> api_sys" where
  "auth_getAccessToken e a s =
     (case run e (getAccessToken e (fst s, a)) of
        (r, (w', a')) \<Rightarrow> (r, (w', (snd s)\<lparr>auth := Some a'\<rparr>)))"

definition ensureAuthenticated :: "env \<Rightarrow> api_sys \<Rightarrow> (error + unit) \<times> api_sys" where
  "ensureAuthenticated e s =
     (case s of (w, api) \<Rightarrow>
        (case (if truthy (manualToken api)
               then (case date_now e w of (now, w') \<Rightarrow> (now < manualTokenExpiry api - 60000, w'))
               else (False, w)) of
           (manual_valid, w1) \<Rightarrow>
             if manual_valid then (Inr (), (w1, api))
             else (case auth api of
                     Some a \<Rightarrow>
                       (case auth_getAccessToken e a (w1, api) of
                          (Inl err, s') \<Rightarrow> (Inl err, s')
                        | (Inr tok, s') \<Rightarrow> (Inr (), s'))
                   | None \<Rightarrow>
                       if \<not> truthy (manualToken api)
                       then (Inl NoAuthenticationAvailable, (w1, api))
                       else (Inr (), (w1, api)))))"

text \<open>\<open>LegrandCloudApi.getAccessToken\<close> (private): the token a request is sent with.\<close>

definition api_getAccessToken :: "env \<Rightarrow> api_sys \<Rightarrow> (error + string) \<times> api_sys" where
  "api_getAccessToken e s =
     (case auth (snd s) of
        Some a \<Rightarrow> auth_getAccessToken e a s
      | None \<Rightarrow>
          if truthy (manualToken (snd s)) then (Inr (non_null (manualToken (snd s))), s)
          else (Inl NoAccessTokenAvailable, s))"

text \<open>\<^verbatim>\<open>setAccessToken(token, expiresIn = 3600)\<close>\<close>

definition setAccessToken :: "env \<Rightarrow> string \<Rightarrow> int \<Rightarrow> api_sys \<Rightarrow> api_sys" where
  "setAccessToken e token expiresIn s =
     (case s of (w, api) \<Rightarrow>
        (case date_now e w of (now, w1) \<Rightarrow>
           (let api1 = api\<lparr>manualToken := Some token,
                            manualTokenExpiry := now + expiresIn * 1000\<rparr>
            in case auth api1 of
                 Some a \<Rightarrow>
                   (case setTokens e token None expiresIn (w1, a) of
                      (w2, a') \<Rightarrow>
                        (log (LogInfo ''Access token set manually'') w2, api1\<lparr>auth := Some a'\<rparr>))
               | None \<Rightarrow> (log (LogInfo ''Access token set manually'') w1, api1))))"

text \<open>
  \<open>makeRequest\<close>: a 2xx status resolves with the parsed body, or with \<open>{}\<close> when the
  body is empty or not JSON; any other status and a transport error reject.
\<close>

definition request_outcome :: "env \<Rightarrow> reply \<Rightarrow> error + json" where
  "request_outcome e rep =
     (case rep of
        Inl m \<Rightarrow> Inl (NetworkError m)
      | Inr res \<Rightarrow>
          if 200 \<le> statusCode res \<and> statusCode res < 300 then
            (if data res \<noteq> [] then
               (case JSON_parse e (data res) of Some j \<Rightarrow> Inr j | None \<Rightarrow> Inr (JObj []))
             else Inr (JObj []))
          else Inl (HttpError (statusCode res) (data res)))"

definition makeRequest ::
  "env \<Rightarrow> string \<Rightarrow> string \<Rightarrow> command_body option \<Rightarrow> api_sys \<Rightarrow> (error + json) \<times> api_sys" where
  "makeRequest e method url body s =
     (case api_getAccessToken e s of
        (Inl err, s1) \<Rightarrow> (Inl err, s1)
      | (Inr token, s1) \<Rightarrow>
          run e (http (ApiRequest method url token body)
                   (if debug (snd s1) then log_in (LogDebug (method @ '' '' @ url)) s1 else s1)
                   (\<lambda>rep s2. Done (request_outcome e rep) s2)))"

definition baseUrl :: string where
  "baseUrl = ''https://api.developer.legrand.com''"

definition command_url :: "string \<Rightarrow> string \<Rightarrow> string" where
  "command_url deviceId command =
     baseUrl @ ''/devicemanagement/api/v2.0/modules/'' @ deviceId @ ''/commands/'' @ command"

definition setState :: "env \<Rightarrow> string \<Rightarrow> string \<Rightarrow> api_sys \<Rightarrow> (error + bool) \<times> api_sys" where
  "setState e deviceId st s =
     (case ensureAuthenticated e s of
        (Inl err, s1) \<Rightarrow> (Inl err, s1)
      | (Inr u, (w1, api1)) \<Rightarrow>
          (let correlationId = randomUUID e (draws w1);
               body = SetStateBody st None correlationId
           in case makeRequest e ''POST'' (command_url deviceId ''setState'') (Some body)
                     (w1\<lparr>draws := Suc (draws w1)\<rparr>, api1) of
                (Inr response, s2) \<Rightarrow>
                  (Inr True,
                   if debug (snd s2)
                   then log_in (LogDebug (''setState response: '' @ JSON_stringify e response)) s2
                   else s2)
              | (Inl err, s2) \<Rightarrow>
                  (Inr False, log_in (LogError (''Failed to set state: '' @ error_to_string err)) s2)))"

text \<open>
  \<open>setBrightness\<close>. The level is an integer, on which \<open>Math.round\<close> is the identity.
\<close>

definition Math_round :: "int \<Rightarrow> int" where
  "Math_round level = level"

definition clampedLevel :: "int \<Rightarrow> int" where
  "clampedLevel level = max 0 (min 100 (Math_round level))"

definition brightness_body :: "int \<Rightarrow> string \<Rightarrow> command_body" where
  "brightness_body level correlationId =
     SetStateBody (if clampedLevel level > 0 then ''on'' else ''off'')
       (Some (clampedLevel level)) correlationId"

definition setBrightness :: "env \<Rightarrow> string \<Rightarrow> int \<Rightarrow> api_sys \<Rightarrow> (error + bool) \<times> api_sys" where
  "setBrightness e deviceId level s =
     (case ensureAuthenticated e s of
        (Inl err, s1) \<Rightarrow> (Inl err, s1)
      | (Inr u, (w1, api1)) \<Rightarrow>
          (let correlationId = randomUUID e (draws w1);
               body = brightness_body level correlationId
           in case makeRequest e ''POST'' (command_url deviceId ''setState'') (Some body)
                     (w1\<lparr>draws := Suc (draws w1)\<rparr>, api1) of
                (Inr response, s2) \<Rightarrow>
                  (Inr True,
                   log_in (LogInfo (''Set '' @ deviceId @ '' brightness to ''
                                      @ show_int (clampedLevel level) @ ''%''))
                     (if debug (snd s2)
                      then log_in (LogDebug (''setBrightness response: '' @ JSON_stringify e response)) s2
                      else s2))
              | (Inl err, s2) \<Rightarrow>
                  (Inr False,
                   log_in (LogError (''Failed to set brightness: '' @ error_to_string err)) s2)))"

definition turnOn :: "env \<Rightarrow> string \<Rightarrow> api_sys \<Rightarrow> (error + bool) \<times> api_sys" where
  "turnOn e deviceId s =
     setState e deviceId ''on'' (log_in (LogInfo (''Turning on device '' @ deviceId)) s)"

definition turnOff :: "env \<Rightarrow> string \<Rightarrow> api_sys \<Rightarrow> (error + bool) \<times> api_sys" where
  "turnOff e deviceId s =
     setState e deviceId ''off'' (log_in (LogInfo (''Turning off device '' @ deviceId)) s)"

text \<open>\<open>getStatus\<close>: the real-time state of a device, or \<open>null\<close>.\<close>

record DeviceState =
  ds_on :: bool
  ds_brightness :: "int option"

definition device_state :: "json \<Rightarrow> DeviceState option" where
  "device_state response =
     (case response of
        JObj kvs \<Rightarrow>
          (case map_of kvs ''payload'' of
             Some payload \<Rightarrow>
               if json_truthy payload then
                 (case payload of
                    JObj pkvs \<Rightarrow>
                      Some \<lparr>ds_on = (map_of pkvs ''state'' = Some (JStr ''on'')),
                            ds_brightness = (case map_of pkvs ''level'' of
                                               Some (JNum n) \<Rightarrow> Some n
                                             | _ \<Rightarrow> None)\<rparr>
                  | _ \<Rightarrow> Some \<lparr>ds_on = False, ds_brightness = None\<rparr>)
               else None
           | None \<Rightarrow> None)
      | _ \<Rightarrow> None)"

definition getStatus ::
  "env \<Rightarrow> string \<Rightarrow> api_sys \<Rightarrow> (error + DeviceState option) \<times> api_sys" where
  "getStatus e deviceId s =
     (case ensureAuthenticated e s of
        (Inl err, s1) \<Rightarrow> (Inl err, s1)
      | (Inr u, (w1, api1)) \<Rightarrow>
          (let correlationId = randomUUID e (draws w1);
               body = GetStateBody correlationId
           in case makeRequest e ''POST'' (command_url deviceId ''getState'') (Some body)
                     (w1\<lparr>draws := Suc (draws w1)\<rparr>, api1) of
                (Inr response, s2) \<Rightarrow>
                  (Inr (device_state response),
                   if debug (snd s2)
                   then log_in (LogDebug (''getState response: '' @ JSON_stringify e response)) s2
                   else s2)
              | (Inl err, s2) \<Rightarrow>
                  (Inr None,
                   log_in (LogError (''Failed to get device status: '' @ error_to_string err)) s2)))"

section \<open>LegrandCloudPlatform: the polling loop\<close>

text \<open>
  The accessory handler keeps the last state shown to HomeKit; \<open>updateState\<close> changes it
  only where the polled value differs.
\<close>

record accessory =
  deviceName :: string
  isDimmer :: bool
  acc_on :: bool
  acc_brightness :: int

definition updateState :: "bool \<Rightarrow> int option \<Rightarrow> world \<times> accessory \<Rightarrow> world \<times> accessory" where
  "updateState isOn brightness s =
     (let s1 = (if acc_on (snd s) \<noteq> isOn
                then (log (LogDebug (deviceName (snd s) @ '' state updated: ''
                                       @ (if isOn then ''ON'' else ''OFF''))) (fst s),
                      (snd s)\<lparr>acc_on := isOn\<rparr>)
                else s)
      in case brightness of
           Some b \<Rightarrow>
             if isDimmer (snd s1) \<and> acc_brightness (snd s1) \<noteq> b
             then (log (LogDebug (deviceName (snd s1) @ '' brightness updated: ''
                                    @ show_int b @ ''%'')) (fst s1),
                   (snd s1)\<lparr>acc_brightness := b\<rparr>)
             else s1
         | None \<Rightarrow> s1)"

text \<open>
  \<open>pollingInterval\<close> is the timer of \<open>setInterval\<close> (its period in milliseconds), or
  \<open>null\<close>; \<open>cfg_pollingInterval\<close> is the configured number of seconds.
\<close>

record LegrandCloudPlatform =
  cloudApi :: LegrandCloudApi
  accessoryHandlers :: "(string \<times> accessory) list"
  pollingInterval :: "int option"
  cfg_pollingInterval :: "int option"
  cfg_debug :: bool

type_synonym platform_sys = "world \<times> LegrandCloudPlatform"

text \<open>
  The \<open>catch\<close> of \<open>pollDeviceStatus\<close>:
  \<^verbatim>\<open>errorMessage.includes('401') || errorMessage.includes('auth')\<close>.
\<close>

definition auth_failure :: "error \<Rightarrow> bool" where
  "auth_failure err = (str_includes (message err) ''401'' \<or> str_includes (message err) ''auth'')"

text \<open>
  The \<open>for\<close> loop over the handlers. On an authentication failure the function returns:
  the rest of this sweep is skipped.
\<close>

fun poll_devices :: "env \<Rightarrow> string list \<Rightarrow> platform_sys \<Rightarrow> platform_sys" where
  "poll_devices e [] s = s"
| "poll_devices e (deviceId # rest) s =
     (case getStatus e deviceId (fst s, cloudApi (snd s)) of
        (Inr (Some st), (w, api)) \<Rightarrow>
          (case map_of (accessoryHandlers (snd s)) deviceId of
             Some handler \<Rightarrow>
               (case updateState (ds_on st) (ds_brightness st)
                       (if cfg_debug (snd s)
                        then log (LogDebug (''  '' @ deviceId @ '': on=''
                                              @ (if ds_on st then ''true'' else ''false'')
                                              @ '', brightness=''
                                              @ (case ds_brightness st of
                                                   Some b \<Rightarrow> show_int b
                                                 | None \<Rightarrow> ''undefined''))) w
                        else w,
                        handler) of
                  (w', handler') \<Rightarrow>
                    poll_devices e rest
                      (w', (snd s)\<lparr>cloudApi := api,
                                     accessoryHandlers :=
                                       AList.update deviceId handler' (accessoryHandlers (snd s))\<rparr>))
           | None \<Rightarrow> poll_devices e rest (w, (snd s)\<lparr>cloudApi := api\<rparr>))
      | (Inr None, (w, api)) \<Rightarrow>
          poll_devices e rest
            (if cfg_debug (snd s)
             then log (LogDebug (''  '' @ deviceId @ '': no state returned'')) w else w,
             (snd s)\<lparr>cloudApi := api\<rparr>)
      | (Inl err, (w, api)) \<Rightarrow>
          if auth_failure err
          then (log (LogError ''Polling failed: Authentication error - check email/password'') w,
                (snd s)\<lparr>cloudApi := api\<rparr>)
          else poll_devices e rest
                 (log (LogWarn (''Polling error for '' @ deviceId @ '': '' @ message err)) w,
                  (snd s)\<lparr>cloudApi := api\<rparr>))"

definition pollDeviceStatus :: "env \<Rightarrow> platform_sys \<Rightarrow> platform_sys" where
  "pollDeviceStatus e s =
     poll_devices e (map fst (accessoryHandlers (snd s)))
       (if cfg_debug (snd s)
        then log_in (LogDebug ''Polling for device status (using getState command)...'') s
        else s)"

text \<open>
  \<open>startPolling\<close>: an immediate poll, and the timer. The poll neither reads nor writes
  \<open>pollingInterval\<close>, so it is run to its end before the timer is stored.
\<close>

definition startPolling :: "env \<Rightarrow> platform_sys \<Rightarrow> platform_sys" where
  "startPolling e s =
     (if pollingInterval (snd s) \<noteq> None then log_in (LogDebug ''Polling already running'') s
      else
        (let intervalSeconds = (case cfg_pollingInterval (snd s) of
                                  Some n \<Rightarrow> if n = 0 then 30 else n
                                | None \<Rightarrow> 30);
             s1 = pollDeviceStatus e
                    (log_in (LogInfo (''Starting status polling every ''
                                        @ show_int intervalSeconds @ '' seconds'')) s)
         in (fst s1, (snd s1)\<lparr>pollingInterval := Some (intervalSeconds * 1000)\<rparr>)))"

definition stopPolling :: "platform_sys \<Rightarrow> platform_sys" where
  "stopPolling s = (fst s, (snd s)\<lparr>pollingInterval := None\<rparr>)"

text \<open>The timer fires: the callback of \<open>setInterval\<close> runs while the timer is set.\<close>

definition timer_fires :: "env \<Rightarrow> platform_sys \<Rightarrow> platform_sys" where
  "timer_fires e s = (if pollingInterval (snd s) \<noteq> None then pollDeviceStatus e s else s)"

section \<open>Overlapping callers of getAccessToken\<close>

text \<open>
  Node runs one task at a time and switches only where a task awaits. A configuration
  is the state of the one \<open>LegrandAuth\<close> object and the tasks started so far. \<open>Call\<close>
  starts a call of \<open>getAccessToken\<close>, which runs to its first await; \<open>Deliver i\<close> hands
  task \<open>i\<close> the reply it waits for, and the task runs on, in the state of that moment,
  to its next await or to its end.
\<close>

datatype event = Call | Deliver nat

type_synonym config = "auth_sys \<times> (auth_sys, error + string) task list"

fun step :: "env \<Rightarrow> config \<Rightarrow> event \<Rightarrow> config" where
  "step e (s, pool) Call = (let t = getAccessToken e s in (state_of t, pool @ [t]))"
| "step e (s, pool) (Deliver i) =
     (if i < length pool then
        (case pool ! i of
           Await n req s_old k \<Rightarrow> (let t = k (net e n req) s in (state_of t, pool[i := t]))
         | Done r s_old \<Rightarrow> (s, pool))
      else (s, pool))"

definition exec :: "env \<Rightarrow> event list \<Rightarrow> config \<Rightarrow> config" where
  "exec e evs c = foldl (step e) c evs"

text \<open>What a finished task returned to its caller.\<close>

fun result_of :: "('s, 'a) task \<Rightarrow> 'a option" where
  "result_of (Done r s) = Some r"
| "result_of (Await n req s k) = None"

fun is_authorize :: "request \<Rightarrow> bool" where
  "is_authorize (AuthorizeGet c st) = True"
| "is_authorize _ = False"

definition logins_started :: "world \<Rightarrow> nat" where
  "logins_started w = length (filter is_authorize (sent w))"

section \<open>A scenario: the identity provider and the device API as they answer\<close>

text \<open>
  The four patterns of the shape \<open>marker([^stops]+)\<close>: the first place where the marker
  is followed by a character that is not a stop, and the run of such characters.
\<close>

fun capture_after :: "string \<Rightarrow> string \<Rightarrow> string \<Rightarrow> string option" where
  "capture_after marker stops [] = None"
| "capture_after marker stops (c # cs) =
     (let run = takeWhile (\<lambda>x. x \<notin> set stops) (drop (length marker) (c # cs))
      in if prefix marker (c # cs) \<and> run \<noteq> [] then Some run
         else capture_after marker stops cs)"

text \<open>
  The pages of the scenario hold no \<open>csrf_token\<close> field and no script redirect, and the
  code arrives in the \<open>Location\<close> header.
\<close>

fun scenario_regex :: "pattern \<Rightarrow> string \<Rightarrow> string option" where
  "scenario_regex StateProperties s = capture_after ''StateProperties='' ''\"&'' s"
| "scenario_regex CsrfCookie s = capture_after ''x-ms-cpim-csrf='' '';'' s"
| "scenario_regex LocationCode s = capture_after ''code='' ''&'' s"
| "scenario_regex BodyCode s = capture_after ''code='' ''&\"' '' s"
| "scenario_regex CsrfField s = None"
| "scenario_regex WindowLocation s = None"

definition login_page_html :: string where
  "login_page_html = ''var SETTINGS = {\"api\":\"CombinedSigninAndSignup\",\"transId\":\"StateProperties=xyz\"};''"

definition rejected_body :: string where
  "rejected_body = ''{\"status\":\"400\",\"message\":\"invalid credentials\"}''"

definition accepted_body :: string where
  "accepted_body = ''{\"status\":\"200\"}''"

definition scenario_JSON_parse :: "string \<Rightarrow> json option" where
  "scenario_JSON_parse body =
     (if body = rejected_body
      then Some (JObj [(''status'', JStr ''400''), (''message'', JStr ''invalid credentials'')])
      else if body = accepted_body then Some (JObj [(''status'', JStr ''200'')])
      else if body = ''{}'' then Some (JObj [])
      else None)"

text \<open>The token endpoint answers request number \<open>n\<close> with the access token \<open>tok\<close>\<open>n\<close>.\<close>

definition token_body :: "nat \<Rightarrow> string" where
  "token_body n = ''{\"access_token\":\"tok'' @ show_nat n
                    @ ''\",\"refresh_token\":\"ref'' @ show_nat n
                    @ ''\",\"expires_in\":3600,\"token_type\":\"Bearer\"}''"

definition scenario_parse_token :: "string \<Rightarrow> TokenResponse option" where
  "scenario_parse_token body =
     (case capture_after ''\"access_token\":\"'' ''\"'' body of
        Some tok \<Rightarrow>
          Some \<lparr>access_token = tok,
                refresh_token = capture_after ''\"refresh_token\":\"'' ''\"'' body,
                expires_in = 3600, token_type = ''Bearer''\<rparr>
      | None \<Rightarrow> None)"

text \<open>
  The provider accepts the login and rejects every refresh token (revoked); the device
  API answers every command with 200 and an empty object.
\<close>

fun scenario_net :: "nat \<Rightarrow> request \<Rightarrow> reply" where
  "scenario_net n (AuthorizeGet c st) =
     Inr \<lparr>statusCode = 200, data = login_page_html,
          setCookieHeaders = Some [''x-ms-cpim-csrf=abc123; Path=/; HttpOnly''],
          locationHeader = None\<rparr>"
| "scenario_net n (SelfAssertedPost csrf ck tx em pw) =
     Inr \<lparr>statusCode = 200, data = accepted_body,
          setCookieHeaders = Some [''x-ms-cpim-sso=s1; Path=/''], locationHeader = None\<rparr>"
| "scenario_net n (ConfirmedGet csrf ck tx) =
     Inr \<lparr>statusCode = 302, data = [], setCookieHeaders = None,
          locationHeader = Some ''msald6f3606b://auth?state=S&code=AUTHCODE123''\<rparr>"
| "scenario_net n (TokenPost (AuthorizationCode code v)) =
     Inr \<lparr>statusCode = 200, data = token_body n, setCookieHeaders = None, locationHeader = None\<rparr>"
| "scenario_net n (TokenPost (RefreshGrant r)) =
     Inr \<lparr>statusCode = 400, data = ''invalid_grant'', setCookieHeaders = None,
          locationHeader = None\<rparr>"
| "scenario_net n (ApiRequest m url tok b) =
     Inr \<lparr>statusCode = 200, data = ''{}'', setCookieHeaders = None, locationHeader = None\<rparr>"

definition scenario :: env where
  "scenario =
     \<lparr>clock = (\<lambda>k. 1000000), net = scenario_net,
      randomBytes32 = (\<lambda>k. replicate 32 0),
      randomUUID = (\<lambda>k. ''3f2b8c1e-0000-4000-8000-00000000000'' @ show_nat (k mod 10)),
      regex_match = scenario_regex, decodeURIComponent = (\<lambda>s. s),
      JSON_parse = scenario_JSON_parse, JSON_stringify = (\<lambda>j. ''{}''),
      parse_token_response = scenario_parse_token\<rparr>"

text \<open>The same provider answering the credentials with 401 (a locked account).\<close>

fun locked_net :: "nat \<Rightarrow> request \<Rightarrow> reply" where
  "locked_net n (SelfAssertedPost csrf ck tx em pw) =
     Inr \<lparr>statusCode = 401, data = ''Unauthorized'', setCookieHeaders = None,
          locationHeader = None\<rparr>"
| "locked_net n req = scenario_net n req"

definition locked_scenario :: env where
  "locked_scenario = scenario\<lparr>net := locked_net\<rparr>"

definition world0 :: world where
  "world0 = \<lparr>reads = 0, draws = 0, sent = [], logs = []\<rparr>"

text \<open>A client configured with a token only, and one configured with credentials.\<close>

definition token_only_api :: LegrandCloudApi where
  "token_only_api =
     \<lparr>auth = None, manualToken = Some ''manual-token'', manualTokenExpiry = 4600000,
      debug = False\<rparr>"

definition account :: LegrandAuth where
  "account = new_LegrandAuth ''user@example.com'' ''secret''"

text \<open>A platform with credentials and one switch, not yet polling.\<close>

definition platform0 :: LegrandCloudPlatform where
  "platform0 =
     \<lparr>cloudApi = new_LegrandCloudApi (Some ''user@example.com'') (Some ''secret'') False,
      accessoryHandlers =
        [(''dev1'', \<lparr>deviceName = ''Hall'', isDimmer = False, acc_on = False,
                     acc_brightness = 100\<rparr>)],
      pollingInterval = None, cfg_pollingInterval = None, cfg_debug = False\<rparr>"

text \<open>
  The same world with a clock that has moved on: the first reading is 1000000, every
  later one 5000000.
\<close>

definition late_scenario :: env where
  "late_scenario = scenario\<lparr>clock := (\<lambda>k. if k = 0 then 1000000 else 5000000)\<rparr>"

definition bare_api :: LegrandCloudApi where
  "bare_api = new_LegrandCloudApi None None False"

text \<open>
  A cache whose token expires 30 seconds after the scenario's clock, with a refresh
  token; one whose token is valid for an hour; and one with a token and no credentials.
\<close>

definition stale_account :: LegrandAuth where
  "stale_account = account\<lparr>accessToken := Some ''old'', refreshToken := Some ''ref-old'',
                             tokenExpiry := 1030000\<rparr>"

definition fresh_account :: LegrandAuth where
  "fresh_account = account\<lparr>accessToken := Some ''cached'', tokenExpiry := 4600000\<rparr>"

section \<open>Running a task\<close>

lemma run_bind: "run e (bind_task m f) = (case run e m of (a, s) \<Rightarrow> run e (f a s))"
  by (induction m) auto

lemma run_and_then:
  "run e (and_then m f) =
     (case run e m of (Inl err, s) \<Rightarrow> (Inl err, s) | (Inr a, s) \<Rightarrow> run e (f a s))"
  by (simp add: and_then_def run_bind split: prod.splits sum.splits)

lemma run_http:
  "run e (http req s k) =
     run e (k (net e (length (sent (fst s))) req) ((fst s)\<lparr>sent := sent (fst s) @ [req]\<rparr>, snd s))"
  by (simp add: http_def)

section \<open>The credential submission step\<close>

subsection \<open>The cookie jar\<close>

lemma render_cookie_pair:
  assumes "CHR ''='' \<in> set (split_first CHR '';'' h)"
  shows "render_cookie (cookie_pair h) = split_first CHR '';'' h"
proof -
  let ?part = "split_first CHR '';'' h"
  let ?name = "takeWhile (\<lambda>c. c \<noteq> CHR ''='') ?part"
  have dw: "dropWhile (\<lambda>c. c \<noteq> CHR ''='') ?part \<noteq> []"
    using assms by (simp add: dropWhile_eq_Nil_conv) 
  have hd: "hd (dropWhile (\<lambda>c. c \<noteq> CHR ''='') ?part) = CHR ''=''"
    using hd_dropWhile [OF dw] by simp
  have "drop (length ?name) ?part = dropWhile (\<lambda>c. c \<noteq> CHR ''='') ?part"
    by (simp add: dropWhile_eq_drop)
  then have "drop (Suc (length ?name)) ?part = tl (dropWhile (\<lambda>c. c \<noteq> CHR ''='') ?part)"
    by (metis drop_Suc tl_drop)
  with dw hd have "?name @ ''='' @ drop (Suc (length ?name)) ?part =
      ?name @ dropWhile (\<lambda>c. c \<noteq> CHR ''='') ?part"
    by (cases "dropWhile (\<lambda>c. c \<noteq> CHR ''='') ?part") auto
  then show ?thesis
    by (simp add: render_cookie_def cookie_pair_def Let_def split_first_def)
qed

lemma fst_cookie_pair:
  "fst (cookie_pair h) = split_first CHR ''='' (split_first CHR '';'' h)"
  by (simp add: cookie_pair_def Let_def)

lemma name_has_no_eq: "CHR ''='' \<notin> set (fst (cookie_pair h))"
  by (auto simp add: cookie_pair_def Let_def split_first_def dest: set_takeWhileD)

lemma prefix_name_eq:
  assumes "CHR ''='' \<notin> set cn" and "CHR ''='' \<notin> set n"
  shows "prefix (cn @ ''='') (n @ ''='' @ v) \<longleftrightarrow> cn = n"
proof
  assume "prefix (cn @ ''='') (n @ ''='' @ v)"
  then obtain zs where eq: "n @ ''='' @ v = (cn @ ''='') @ zs"
    by (auto simp add: prefix_def)
  have "takeWhile (\<lambda>c. c \<noteq> CHR ''='') (n @ CHR ''='' # v) = n"
    using assms(2) by (auto simp add: takeWhile_tail)
  moreover have "takeWhile (\<lambda>c. c \<noteq> CHR ''='') (cn @ CHR ''='' # zs) = cn"
    using assms(1) by (auto simp add: takeWhile_tail)
  ultimately show "cn = n" using eq by simp
next
  assume "cn = n" then show "prefix (cn @ ''='') (n @ ''='' @ v)" by simp
qed

lemma findIndex_render:
  assumes "\<forall>p \<in> set jar. CHR ''='' \<notin> set (fst p)" and "CHR ''='' \<notin> set cn"
  shows "(case findIndex (\<lambda>c. startsWith c (cn @ ''='')) (map render_cookie jar) of
            Some i \<Rightarrow> (map render_cookie jar)[i := render_cookie (cn, v)]
          | None \<Rightarrow> map render_cookie jar @ [render_cookie (cn, v)])
         = map render_cookie (AList.update cn v jar)"
  using assms
proof (induction jar)
  case Nil
  then show ?case by simp
next
  case (Cons p jar)
  have "startsWith (render_cookie p) (cn @ ''='') \<longleftrightarrow> fst p = cn"
    using Cons.prems prefix_name_eq [of cn "fst p" "snd p"]
    by (auto simp add: startsWith_def render_cookie_def)
  with Cons show ?case
    by (auto split: option.splits)
qed

lemma cookie_step_render:
  assumes "\<forall>p \<in> set jar. CHR ''='' \<notin> set (fst p)"
    and "CHR ''='' \<in> set (split_first CHR '';'' h)"
  shows "cookie_step (map render_cookie jar) h =
           map render_cookie (AList.update (fst (cookie_pair h)) (snd (cookie_pair h)) jar)"
proof -
  have "cookie_step (map render_cookie jar) h =
          (case findIndex (\<lambda>c. startsWith c (fst (cookie_pair h) @ ''='')) (map render_cookie jar) of
             Some i \<Rightarrow> (map render_cookie jar)[i := render_cookie (cookie_pair h)]
           | None \<Rightarrow> map render_cookie jar @ [render_cookie (cookie_pair h)])"
    by (simp add: cookie_step_def Let_def fst_cookie_pair render_cookie_pair [OF assms(2)]
        cong: option.case_cong)
  also have "\<dots> = map render_cookie (AList.update (fst (cookie_pair h)) (snd (cookie_pair h)) jar)"
    using findIndex_render [OF assms(1) name_has_no_eq, of h "snd (cookie_pair h)"]
    by (simp cong: option.case_cong)
  finally show ?thesis .
qed

lemma update_keeps_names:
  "\<forall>p \<in> set jar. CHR ''='' \<notin> set (fst p) \<Longrightarrow> CHR ''='' \<notin> set k \<Longrightarrow>
   \<forall>p \<in> set (AList.update k v jar). CHR ''='' \<notin> set (fst p)"
  by (induction jar) auto

lemma foldl_cookie_step_render:
  assumes "\<forall>p \<in> set jar. CHR ''='' \<notin> set (fst p)"
    and "\<forall>h \<in> set hs. CHR ''='' \<in> set (split_first CHR '';'' h)"
  shows "foldl cookie_step (map render_cookie jar) hs = map render_cookie (jar_merge jar hs)"
  using assms
proof (induction hs arbitrary: jar)
  case Nil
  then show ?case by (simp add: jar_merge_def)
next
  case (Cons h hs)
  let ?jar' = "AList.update (fst (cookie_pair h)) (snd (cookie_pair h)) jar"
  have step: "cookie_step (map render_cookie jar) h = map render_cookie ?jar'"
    using Cons.prems by (simp add: cookie_step_render)
  have inv: "\<forall>p \<in> set ?jar'. CHR ''='' \<notin> set (fst p)"
    using Cons.prems(1) name_has_no_eq by (rule update_keeps_names)
  have "foldl cookie_step (map render_cookie ?jar') hs = map render_cookie (jar_merge ?jar' hs)"
    using Cons.IH [OF inv] Cons.prems(2) by simp
  with step show ?case by (simp add: jar_merge_def)
qed

text \<open>
  C8, as the code has it. For a jar of \<open>name=value\<close> entries (no \<open>=\<close> in a name) and
  headers whose part before the first \<open>;\<close> holds an \<open>=\<close>, the cookie loop is the
  merge of the specification: the part before the first \<open>;\<close> is the pair, its name
  the part before the first \<open>=\<close>; an existing name is overwritten in place, a new one
  appended; and the \<open>Cookie\<close> header is the pairs joined by \<open>; \<close>.
\<close>

theorem merge_cookies_refines_jar:
  assumes "\<forall>p \<in> set jar. CHR ''='' \<notin> set (fst p)"
    and "\<forall>h \<in> set hs. CHR ''='' \<in> set (split_first CHR '';'' h)"
  shows "merge_cookies (map render_cookie jar) (Some hs) = map render_cookie (jar_merge jar hs)
       \<and> cookie_header (merge_cookies (map render_cookie jar) (Some hs)) =
           jar_serialize (jar_merge jar hs)
       \<and> fst (cookie_pair h) = split_first CHR ''='' (split_first CHR '';'' h)"
  using foldl_cookie_step_render [OF assms]
  by (simp add: merge_cookies_def cookie_header_def jar_serialize_def fst_cookie_pair)

theorem merge_cookies_refines_jar_witness:
  "cookie_header (merge_cookies [''a=1''] (Some [''a=2; Path=/'', ''b=3; HttpOnly''])) = ''a=2; b=3''
   \<and> jar_merge [(''a'', ''1'')] [''a=2; Path=/'', ''b=3; HttpOnly''] = [(''a'', ''2''), (''b'', ''3'')]"
  using merge_cookies_refines_jar [of "[(''a'', ''1'')]" "[''a=2; Path=/'', ''b=3; HttpOnly'']"]
  by (simp add: render_cookie_def split_first_def jar_serialize_def jar_merge_def cookie_pair_def
      cookie_header_def)

text \<open>
  A header without \<open>=\<close> is stored as it stands, and a later header of the same name
  does not find it: the name is then in the jar twice.
\<close>

theorem valueless_cookie_counterexample:
  "cookie_header (merge_cookies (map render_cookie []) (Some [''flag'', ''flag=2''])) = ''flag; flag=2''
   \<and> jar_serialize (jar_merge [] [''flag'', ''flag=2'']) = ''flag=2''
   \<and> cookie_header (merge_cookies (map render_cookie []) (Some [''flag'', ''flag=2''])) \<noteq>
       jar_serialize (jar_merge [] [''flag'', ''flag=2''])"
  by (simp add: merge_cookies_def cookie_step_def cookie_header_def split_first_def startsWith_def
      jar_serialize_def jar_merge_def cookie_pair_def render_cookie_def)

subsection \<open>The answer to the credentials\<close>



section \<open>Device commands\<close>

lemma clampedLevel_cases:
  "clampedLevel level = (if level < 0 then 0 else if 100 < level then 100 else level)"
  by (simp add: clampedLevel_def Math_round_def)

text \<open>
  C9. Once authentication has passed and a token is at hand, the one request that
  \<open>setBrightness\<close> sends carries the level clamped into 0..100 and the state \<open>off\<close>
  exactly when the clamped level is 0; 150 is sent as 100, and -5 as 0 with state \<open>off\<close>.
\<close>

theorem setBrightness_clamps:
  assumes "ensureAuthenticated e s = (Inr u, (w1, api1))"
    and "api_getAccessToken e (w1\<lparr>draws := Suc (draws w1)\<rparr>, api1) = (Inr token, s2)"
  shows "sent (fst (snd (setBrightness e deviceId level s))) =
           sent (fst s2) @
             [ApiRequest ''POST'' (command_url deviceId ''setState'') token
                (Some (SetStateBody (if clampedLevel level = 0 then ''off'' else ''on'')
                         (Some (clampedLevel level)) (randomUUID e (draws w1))))]
         \<and> clampedLevel level = (if level < 0 then 0 else if 100 < level then 100 else level)
         \<and> 0 \<le> clampedLevel level \<and> clampedLevel level \<le> 100
         \<and> clampedLevel 150 = 100 \<and> clampedLevel (- 5) = 0
         \<and> brightness_body (- 5) c = SetStateBody ''off'' (Some 0) c"
proof -
  have "sent (fst (snd (setBrightness e deviceId level s))) =
           sent (fst s2) @
             [ApiRequest ''POST'' (command_url deviceId ''setState'') token
                (Some (SetStateBody (if clampedLevel level = 0 then ''off'' else ''on'')
                         (Some (clampedLevel level)) (randomUUID e (draws w1))))]"
    using assms
    by (simp add: setBrightness_def makeRequest_def run_http brightness_body_def
        clampedLevel_cases log_in_def log_def request_outcome_def
        split: sum.splits option.splits)
  then show ?thesis
    by (simp add: clampedLevel_cases brightness_body_def)
qed

theorem setBrightness_clamps_witness:
  "sent (fst (snd (setBrightness scenario ''dev1'' 150 (world0, token_only_api)))) =
     [ApiRequest ''POST'' (command_url ''dev1'' ''setState'') ''manual-token''
        (Some (SetStateBody ''on'' (Some 100) ''3f2b8c1e-0000-4000-8000-000000000000''))]"
proof -
  have h1: "ensureAuthenticated scenario (world0, token_only_api) =
              (Inr (), (world0\<lparr>reads := 1\<rparr>, token_only_api))"
    by (simp add: ensureAuthenticated_def token_only_api_def date_now_def scenario_def world0_def)
  have h2: "api_getAccessToken scenario
              ((world0\<lparr>reads := 1\<rparr>)\<lparr>draws := Suc (draws (world0\<lparr>reads := 1\<rparr>))\<rparr>, token_only_api) =
              (Inr ''manual-token'',
               ((world0\<lparr>reads := 1\<rparr>)\<lparr>draws := Suc (draws (world0\<lparr>reads := 1\<rparr>))\<rparr>, token_only_api))"
    by (simp add: api_getAccessToken_def token_only_api_def)
  have "randomUUID scenario (draws (world0\<lparr>reads := 1\<rparr>)) = ''3f2b8c1e-0000-4000-8000-000000000000''"
    by (simp add: scenario_def world0_def digit_def)
  with setBrightness_clamps [OF h1 h2, of "''dev1''" 150] show ?thesis
    by (simp add: world0_def)
qed

text \<open>
  C10. \<open>setState\<close> rejects exactly when the authentication step before it rejects.
  Otherwise it resolves: to \<open>true\<close> when the request is answered with a 2xx status,
  whatever the body holds, and to \<open>false\<close> when no token is to be had, when the
  transport fails, or when the status is not 2xx. \<open>turnOn\<close> and \<open>turnOff\<close> are
  \<open>setState\<close> after a log line.
\<close>

theorem setState_resolves:
  "fst (setState e deviceId st s) =
     (case ensureAuthenticated e s of
        (Inl err, s1) \<Rightarrow> Inl err
      | (Inr u, (w1, api1)) \<Rightarrow>
          (case api_getAccessToken e (w1\<lparr>draws := Suc (draws w1)\<rparr>, api1) of
             (Inl err, s2) \<Rightarrow> Inr False
           | (Inr token, s2) \<Rightarrow>
               (case net e (length (sent (fst s2)))
                       (ApiRequest ''POST'' (command_url deviceId ''setState'') token
                          (Some (SetStateBody st None (randomUUID e (draws w1))))) of
                  Inl m \<Rightarrow> Inr False
                | Inr res \<Rightarrow> Inr (200 \<le> statusCode res \<and> statusCode res < 300))))
   \<and> turnOn e deviceId s =
       setState e deviceId ''on'' (log_in (LogInfo (''Turning on device '' @ deviceId)) s)
   \<and> turnOff e deviceId s =
       setState e deviceId ''off'' (log_in (LogInfo (''Turning off device '' @ deviceId)) s)"
  by (simp add: setState_def makeRequest_def run_http request_outcome_def log_in_def log_def
      turnOn_def turnOff_def
      split: prod.splits sum.splits option.splits)

theorem setState_resolves_witness:
  "fst (setState scenario ''dev1'' ''on'' (world0, token_only_api)) = Inr True"
  using setState_resolves [of scenario "''dev1''" "''on''" "(world0, token_only_api)"]
  by (simp add: ensureAuthenticated_def api_getAccessToken_def token_only_api_def
      scenario_def world0_def date_now_def)

section \<open>The token cache\<close>

subsection \<open>How many requests a login sends\<close>

lemma sent_log_in [simp]: "sent (fst (log_in entry s)) = sent (fst s)"
  by (simp add: log_in_def log_def)

lemma snd_log_in [simp]: "snd (log_in entry s) = snd s"
  by (simp add: log_in_def)

lemma sent_store_login [simp]: "sent (fst (store_login e tokens s)) = sent (fst s)"
  by (simp add: store_login_def date_now_def log_def split: prod.splits)

lemma sent_store_refreshed [simp]: "sent (fst (store_refreshed e tokens s)) = sent (fst s)"
  by (simp add: store_refreshed_def date_now_def log_def split: prod.splits)

lemma accessToken_store_login [simp]:
  "accessToken (snd (store_login e tokens s)) = Some (access_token tokens)"
  by (simp add: store_login_def date_now_def split: prod.splits)

lemma accessToken_store_refreshed [simp]:
  "accessToken (snd (store_refreshed e tokens s)) = Some (access_token tokens)"
  by (simp add: store_refreshed_def date_now_def split: prod.splits)

lemma run_postToTokenEndpoint:
  "run e (postToTokenEndpoint e g s) =
     (token_outcome e (net e (length (sent (fst s))) (TokenPost g)),
      ((fst s)\<lparr>sent := sent (fst s) @ [TokenPost g]\<rparr>, snd s))"
  by (simp add: postToTokenEndpoint_def run_http)






lemma run_refreshAccessToken:
  "truthy (refreshToken (snd s)) \<Longrightarrow>
   run e (refreshAccessToken e s) =
     (case token_outcome e (net e (length (sent (fst s)))
                              (TokenPost (RefreshGrant (non_null (refreshToken (snd s)))))) of
        Inl err \<Rightarrow>
          (Inl err,
           ((log (LogDebug ''Refreshing access token...'') (fst s))
              \<lparr>sent := sent (fst s) @ [TokenPost (RefreshGrant (non_null (refreshToken (snd s))))]\<rparr>,
            snd s))
      | Inr tokens \<Rightarrow>
          (Inr (),
           store_refreshed e tokens
             ((log (LogDebug ''Refreshing access token...'') (fst s))
                \<lparr>sent := sent (fst s) @ [TokenPost (RefreshGrant (non_null (refreshToken (snd s))))]\<rparr>,
              snd s)))"
  by (simp add: refreshAccessToken_def run_and_then run_postToTokenEndpoint log_in_def log_def
      split: sum.splits)



subsection \<open>Evaluating the scenario\<close>

text \<open>
  The definitions a run of the scenario unfolds. The PKCE challenge is left as it is:
  no answer of the scenario depends on it.
\<close>

lemmas scenario_simps =
  scenario_def world0_def account_def new_LegrandAuth_def stale_account_def
  date_now_def log_def log_in_def
  login_choreography_def authenticate_def authenticate_and_return_def return_token_def
  and_then_def http_def startAuthorization_def submitCredentials_def confirmAndGetCode_def
  postToTokenEndpoint_def exchangeCodeForTokens_def
  login_page_def submit_outcome_def confirm_outcome_def token_outcome_def
  store_login_def or_else_def merge_cookies_def cookie_step_def cookie_header_def
  split_first_def startsWith_def
  login_page_html_def accepted_body_def rejected_body_def token_body_def
  scenario_JSON_parse_def scenario_parse_token_def digit_def
  error_to_string_def

subsection \<open>Cache hit, refresh, fallback\<close>



text \<open>
  C6. With no valid token and a refresh token present, the first request sent is the
  refresh. When it succeeds its token is returned. When it fails, the error is logged as
  a warning and not returned: the call continues as a full authentication, whose result,
  success or error, is the result of the call.
\<close>

theorem refresh_then_fallback:
  assumes "truthy (refreshToken a)"
    and "\<not> (truthy (accessToken a) \<and> clock e (reads w) < tokenExpiry a - 60000)"
  shows "let req = TokenPost (RefreshGrant (non_null (refreshToken a)));
             w0 = (if truthy (accessToken a) then w\<lparr>reads := Suc (reads w)\<rparr> else w);
             s1 = ((log (LogDebug ''Refreshing access token...'') w0)\<lparr>sent := sent w @ [req]\<rparr>, a)
         in (case getAccessToken e (w, a) of
               Await n r s k \<Rightarrow> n = length (sent w) \<and> r = req
             | Done r s \<Rightarrow> False)
          \<and> run e (getAccessToken e (w, a)) =
              (case token_outcome e (net e (length (sent w)) req) of
                 Inr tokens \<Rightarrow> (Inr (access_token tokens), store_refreshed e tokens s1)
               | Inl err \<Rightarrow>
                   run e (authenticate_and_return e
                            (log_in (LogWarn (''Token refresh failed: '' @ error_to_string err)) s1)))"
proof -
  let ?w0 = "if truthy (accessToken a) then w\<lparr>reads := Suc (reads w)\<rparr> else w"
  have eq: "getAccessToken e (w, a) = refresh_or_authenticate e (?w0, a)"
    using assms(2) by (simp add: getAccessToken_def date_now_def)
  have s: "sent ?w0 = sent w" by simp
  show ?thesis
    unfolding eq Let_def
    using assms(1)
    by (auto simp add: refresh_or_authenticate_def run_bind run_refreshAccessToken
        refreshAccessToken_def and_then_def postToTokenEndpoint_def http_def
        return_token_def log_in_def log_def
        split: sum.splits)
qed

theorem refresh_then_fallback_witness:
  "truthy (refreshToken stale_account)
   \<and> \<not> (truthy (accessToken stale_account)
         \<and> clock scenario (reads world0) < tokenExpiry stale_account - 60000)
   \<and> token_outcome scenario (net scenario 0 (TokenPost (RefreshGrant ''ref-old''))) =
       Inl (TokenRequestFailed 400 ''invalid_grant'')
   \<and> fst (run scenario (getAccessToken scenario (world0, stale_account))) = Inr ''tok4''"
  using refresh_then_fallback [of stale_account scenario world0]
  by (simp add: scenario_simps Let_def)

subsection \<open>A token set by hand\<close>

text \<open>
  C4, as the code has it. A client without an auth module fails its authentication step
  only when no token was ever set by hand; with one, expired or not, the step passes and
  the token is used. On the token cache itself, a token set by hand without a refresh
  token, once past the 60-second margin and with no credentials, makes \<open>getAccessToken\<close>
  fail with the missing-credentials error, and nothing is sent.
\<close>

theorem manual_token_expiry:
  "(auth api = None \<longrightarrow>
      fst (ensureAuthenticated e (w, api)) =
        (if truthy (manualToken api) then Inr () else Inl NoAuthenticationAvailable)
      \<and> fst (api_getAccessToken e (w, api)) =
        (if truthy (manualToken api) then Inr (non_null (manualToken api))
         else Inl NoAccessTokenAvailable))
   \<and> (\<not> hasCredentials a \<longrightarrow>
        fst (run e (getAccessToken e (setTokens e tok None expiresIn (w, a)))) =
          (if tok \<noteq> [] \<and> clock e (Suc (reads w)) < clock e (reads w) + expiresIn * 1000 - 60000
           then Inr tok else Inl CredentialsRequired)
        \<and> sent (fst (snd (run e (getAccessToken e (setTokens e tok None expiresIn (w, a)))))) = sent w
        \<and> error_kind_of CredentialsRequired = NoCredentialsError)"
  by (auto simp add: ensureAuthenticated_def api_getAccessToken_def date_now_def
      getAccessToken_def setTokens_def or_else_def return_token_def refresh_or_authenticate_def
      authenticate_and_return_def authenticate_def run_and_then log_in_def log_def hasCredentials_def
      split: prod.splits)

theorem manual_token_expiry_witness:
  "auth token_only_api = None
   \<and> fst (ensureAuthenticated late_scenario (world0, token_only_api)) = Inr ()
   \<and> \<not> hasCredentials (new_LegrandAuth [] [])
   \<and> fst (run late_scenario (getAccessToken late_scenario
            (setTokens late_scenario ''manual-token'' None 3600 (world0, new_LegrandAuth [] []))))
       = Inl CredentialsRequired"
  using manual_token_expiry [of token_only_api late_scenario world0
      "new_LegrandAuth [] []" "''manual-token''" 3600]
  by (simp add: token_only_api_def hasCredentials_def new_LegrandAuth_def late_scenario_def
      scenario_def world0_def)

text \<open>
  The client of the platform, configured with a token and no credentials: an hour and
  more after the token was set, the command is still sent, with the expired token.
\<close>

theorem manual_token_expiry_counterexample:
  "fst (ensureAuthenticated late_scenario
          (setAccessToken late_scenario ''manual-token'' 3600 (world0, bare_api))) = Inr ()
   \<and> fst (setState late_scenario ''dev1'' ''on''
            (setAccessToken late_scenario ''manual-token'' 3600 (world0, bare_api))) = Inr True
   \<and> sent (fst (snd (setState late_scenario ''dev1'' ''on''
            (setAccessToken late_scenario ''manual-token'' 3600 (world0, bare_api))))) =
       [ApiRequest ''POST'' (command_url ''dev1'' ''setState'') ''manual-token''
          (Some (SetStateBody ''on'' None ''3f2b8c1e-0000-4000-8000-000000000000''))]
   \<and> \<not> clock late_scenario 1 <
         manualTokenExpiry (snd (setAccessToken late_scenario ''manual-token'' 3600 (world0, bare_api)))
           - 60000"
  by (simp add: setState_def makeRequest_def ensureAuthenticated_def api_getAccessToken_def
      setAccessToken_def bare_api_def new_LegrandCloudApi_def late_scenario_def scenario_def
      world0_def date_now_def log_def log_in_def http_def request_outcome_def
      scenario_JSON_parse_def rejected_body_def accepted_body_def digit_def Let_def)

section \<open>The polling loop\<close>

text \<open>No sweep touches the timer: \<open>pollDeviceStatus\<close> never clears \<open>pollingInterval\<close>.\<close>

lemma poll_devices_keeps_timer:
  "pollingInterval (snd (poll_devices e ids s)) = pollingInterval (snd s)"
  by (induction ids arbitrary: s)
     (auto split: prod.splits sum.splits option.splits)

lemma pollDeviceStatus_keeps_timer:
  "pollingInterval (snd (pollDeviceStatus e s)) = pollingInterval (snd s)"
  by (simp add: pollDeviceStatus_def poll_devices_keeps_timer)

lemmas platform_simps =
  startPolling_def timer_fires_def pollDeviceStatus_def platform0_def new_LegrandCloudApi_def
  locked_scenario_def getStatus_def ensureAuthenticated_def auth_getAccessToken_def
  getAccessToken_def refresh_or_authenticate_def auth_failure_def logins_started_def

text \<open>
  C3, on the code. The provider answers the credentials with 401. The immediate poll of
  \<open>startPolling\<close> runs one login, logs the authentication failure and returns; the
  timer is set all the same, and when it fires the next sweep runs a second login.
\<close>

theorem polling_goes_on_after_authentication_failure:
  "pollingInterval (snd (startPolling locked_scenario (world0, platform0))) = Some 30000
   \<and> logins_started (fst (startPolling locked_scenario (world0, platform0))) = 1
   \<and> last (logs (fst (startPolling locked_scenario (world0, platform0)))) =
       LogError ''Polling failed: Authentication error - check email/password''
   \<and> logins_started
        (fst (timer_fires locked_scenario (startPolling locked_scenario (world0, platform0)))) = 2"
  by (simp add: platform_simps scenario_simps Let_def)

section \<open>Overlapping callers\<close>

lemma first_call_starts_login:
  assumes "\<not> truthy (accessToken a)" and "\<not> truthy (refreshToken a)" and "hasCredentials a"
  shows "snd (state_of (getAccessToken e (w, a))) = a
       \<and> sent (fst (state_of (getAccessToken e (w, a)))) =
           sent w @ [AuthorizeGet
                       (generateCodeChallenge (generateCodeVerifier (randomBytes32 e (draws w))))
                       (remove_dashes (toUpperCase (randomUUID e (Suc (draws w)))))]
       \<and> result_of (getAccessToken e (w, a)) = None"
  using assms
  by (simp add: getAccessToken_def refresh_or_authenticate_def authenticate_and_return_def
      authenticate_def login_choreography_def startAuthorization_def and_then_def http_def
      hasCredentials_def log_in_def log_def Let_def)

lemma calls_start_logins:
  assumes "\<not> truthy (accessToken a)" and "\<not> truthy (refreshToken a)" and "hasCredentials a"
  shows "snd (fst (exec e (replicate n Call) ((w, a), pool))) = a
       \<and> logins_started (fst (fst (exec e (replicate n Call) ((w, a), pool)))) = logins_started w + n
       \<and> length (snd (exec e (replicate n Call) ((w, a), pool))) = length pool + n"
proof (induction n arbitrary: w pool)
  case 0
  show ?case by (simp add: exec_def)
next
  case (Suc n)
  obtain w' where st: "state_of (getAccessToken e (w, a)) = (w', a)"
    using first_call_starts_login [OF assms, of e w]
    by (cases "state_of (getAccessToken e (w, a))") auto
  have lg: "logins_started w' = Suc (logins_started w)"
    using first_call_starts_login [OF assms, of e w] st
    by (simp add: logins_started_def)
  have "exec e (replicate (Suc n) Call) ((w, a), pool) =
          exec e (replicate n Call) ((w', a), pool @ [getAccessToken e (w, a)])"
    using st by (simp add: exec_def Let_def)
  with Suc.IH [of w' "pool @ [getAccessToken e (w, a)]"] lg show ?case by simp
qed

text \<open>
  C1, as the code has it. \<open>getAccessToken\<close> keeps no record of an attempt in flight:
  with credentials and neither a token nor a refresh token cached, every call started
  before any reply arrives sends an authorize request of its own, so \<open>n\<close> overlapping
  calls start \<open>n\<close> login choreographies and leave \<open>n\<close> tasks in flight. A call that
  starts while a valid token is cached settles at once with that token and sends nothing.
\<close>

theorem overlapping_calls_each_login:
  assumes "\<not> truthy (accessToken a)" and "\<not> truthy (refreshToken a)" and "hasCredentials a"
  shows "logins_started (fst (fst (exec e (replicate n Call) ((w, a), [])))) = logins_started w + n
       \<and> length (snd (exec e (replicate n Call) ((w, a), []))) = n
       \<and> (truthy (accessToken a') \<and> clock e (reads w') < tokenExpiry a' - 60000 \<longrightarrow>
            step e ((w', a'), pool) Call =
              ((w'\<lparr>reads := Suc (reads w')\<rparr>, a'),
               pool @ [Done (Inr (non_null (accessToken a'))) (w'\<lparr>reads := Suc (reads w')\<rparr>, a')]))"
  using calls_start_logins [OF assms, of e n w "[]"]
  by (simp add: getAccessToken_def date_now_def return_token_def)

lemmas exec_simps =
  exec_def getAccessToken_def refresh_or_authenticate_def logins_started_def

theorem overlapping_calls_each_login_witness:
  "\<not> truthy (accessToken account) \<and> \<not> truthy (refreshToken account) \<and> hasCredentials account
   \<and> logins_started (fst (fst (exec scenario [Call, Call] ((world0, account), [])))) = 2
   \<and> truthy (accessToken fresh_account)
   \<and> clock scenario (reads world0) < tokenExpiry fresh_account - 60000
   \<and> step scenario ((world0, fresh_account), []) Call =
       ((world0\<lparr>reads := 1\<rparr>, fresh_account),
        [Done (Inr ''cached'') (world0\<lparr>reads := 1\<rparr>, fresh_account)])"
proof -
  have a: "\<not> truthy (accessToken account)" "\<not> truthy (refreshToken account)"
      "hasCredentials account"
    by (simp_all add: account_def new_LegrandAuth_def hasCredentials_def)
  have b: "truthy (accessToken fresh_account)"
      "clock scenario (reads world0) < tokenExpiry fresh_account - 60000"
      "non_null (accessToken fresh_account) = ''cached''"
    by (simp_all add: fresh_account_def scenario_def world0_def)
  have c: "replicate 2 Call = [Call, Call]" "logins_started world0 = 0" "Suc (reads world0) = 1"
    by (simp_all add: eval_nat_numeral logins_started_def world0_def)
  from overlapping_calls_each_login [OF a, of scenario 2 world0 fresh_account world0 "[]"] a b c
  show ?thesis by simp
qed

text \<open>
  Two calls overlap and their replies alternate: two choreographies run to the end, and
  the two callers receive different tokens.
\<close>

theorem single_login_counterexample:
  "logins_started (fst (fst (exec scenario
       [Call, Call, Deliver 0, Deliver 1, Deliver 0, Deliver 1, Deliver 0, Deliver 1,
        Deliver 0, Deliver 1] ((world0, account), [])))) = 2
   \<and> map result_of (snd (exec scenario
       [Call, Call, Deliver 0, Deliver 1, Deliver 0, Deliver 1, Deliver 0, Deliver 1,
        Deliver 0, Deliver 1] ((world0, account), []))) = [Some (Inr ''tok6''), Some (Inr ''tok7'')]"
  by (simp add: exec_simps scenario_simps Let_def)

section \<open>The PKCE challenge\<close>

lemma length_base64url: "length (base64url bs) = (4 * length bs + 2) div 3"
  by (induction bs rule: base64url.induct) simp_all

lemma b64_char_in_alphabet: "b64_char i \<in> set b64url_alphabet"
proof -
  have "i AND 63 \<le> 63" by (rule word_and_le1)
  then have "unat (i AND 63) \<le> 63" by (simp add: word_le_nat_alt)
  then have "unat (i AND 63) < length b64url_alphabet" by (simp add: b64url_alphabet_def)
  then show ?thesis unfolding b64_char_def by (rule nth_mem)
qed

lemma base64url_alphabet: "set (base64url bs) \<subseteq> set b64url_alphabet"
  by (induction bs rule: base64url.induct) (simp_all add: b64_char_in_alphabet)

lemma length_round_step: "length (round_step st kw) = 8"
  by (simp add: round_step_def Let_def)

lemma length_rounds: "length st = 8 \<Longrightarrow> length (foldl round_step st kws) = 8"
  by (induction kws arbitrary: st) (simp_all add: length_round_step)

lemma length_compress: "length st = 8 \<Longrightarrow> length (compress st blk) = 8"
  by (simp add: compress_def length_rounds)

lemma length_compress_all: "length st = 8 \<Longrightarrow> length (foldl compress st blks) = 8"
  by (induction blks arbitrary: st) (simp_all add: length_compress)

lemma length_concat_word_bytes: "length (concat (map word_bytes ws)) = 4 * length ws"
  by (induction ws) (simp_all add: word_bytes_def)

lemma length_sha256: "length (sha256 m) = 32"
  by (simp add: sha256_def length_concat_word_bytes length_compress_all H256_def)

text \<open>
  C2, as the code has it. The challenge is the base64url encoding of the SHA-256 digest
  of the verifier \<^emph>\<open>string\<close>: of the characters of the encoded verifier, 43 of them for
  32 random bytes, as RFC 7636 has it for the method \<open>S256\<close>. Verifier and challenge
  are written in the URL-safe alphabet, without padding; the challenge has 43 characters.
\<close>

theorem code_challenge_hashes_verifier_string:
  "generateCodeChallenge (generateCodeVerifier random_bytes) =
     base64url (sha256 (utf8_ascii (base64url random_bytes)))
   \<and> length (utf8_ascii (generateCodeVerifier random_bytes)) = (4 * length random_bytes + 2) div 3
   \<and> (length random_bytes = 32 \<longrightarrow> length (generateCodeVerifier random_bytes) = 43)
   \<and> set (generateCodeVerifier random_bytes) \<subseteq> set b64url_alphabet
   \<and> length (generateCodeChallenge verifier) = 43
   \<and> set (generateCodeChallenge verifier) \<subseteq> set b64url_alphabet"
  by (simp add: generateCodeChallenge_def generateCodeVerifier_def utf8_ascii_def
      length_base64url length_sha256 base64url_alphabet)

theorem code_challenge_hashes_verifier_string_witness:
  "length (replicate 32 (0 :: byte)) = 32
   \<and> length (generateCodeVerifier (replicate 32 0)) = 43
   \<and> generateCodeVerifier (replicate 32 0) = ''AAAAAAAAAAAAAAAAAAAAAAAAAAAAAAAAAAAAAAAAAAA''"
proof -
  have "generateCodeVerifier (replicate 32 0) = ''AAAAAAAAAAAAAAAAAAAAAAAAAAAAAAAAAAAAAAAAAAA''"
    by code_simp
  with code_challenge_hashes_verifier_string [of "replicate 32 0"] show ?thesis
    by simp
qed

text \<open>
  A fixed vector: 32 zero bytes. The challenge of the code and the digest of the raw
  bytes differ.
\<close>

lemma code_challenge_vector:
  "generateCodeChallenge (generateCodeVerifier (replicate 32 0)) =
     ''DwBzhbb51LfusnSGBa_hqYSgo7-j8BTQnip4TOnlzRo''"
  by code_simp

lemma spec_challenge_vector:
  "spec_challenge (replicate 32 0) = ''Zmh6rfhivXdsj8GLjp-OIAiXFIVu4jOzkCpZHQ1fKSU''"
  by code_simp

theorem challenge_of_raw_bytes_counterexample:
  "generateCodeChallenge (generateCodeVerifier (replicate 32 0)) \<noteq> spec_challenge (replicate 32 0)"
  by (simp add: code_challenge_vector spec_challenge_vector)

end
